theory Spec2Isabelle
  imports Complex_Main "HOL-Library.Word"
begin

section \<open>Values of the Python program\<close>

text \<open>
  A NumPy float is either the invalid sentinel \<open>NaN\<close> or a finite number. Finite numbers
  are taken as reals: the functions below compare, add, subtract and copy them, and take
  the length of a hypotenuse. Every comparison with \<open>NaN\<close> is false and arithmetic on
  \<open>NaN\<close> gives \<open>NaN\<close>. The one infinity of the code, the initial \<open>best_r\<close> of
  \<open>rotate_and_match\<close>, is the absence of a best match. Where the code takes the ceiling of
  a sum of cosine and sine, in \<open>get_rotated_template\<close>, the rounding of doubles decides
  the result at multiples of a right angle, and the double operations are kept apart from
  the real ones there.
\<close>

datatype fl = NaN | Fin real

datatype py_error = ValueError | IndexError | UnboundLocalError | ExternalError

fun isnan :: "fl \<Rightarrow> bool" where
  "isnan NaN = True"
| "isnan (Fin _) = False"

fun fl_less :: "fl \<Rightarrow> fl \<Rightarrow> bool" where
  "fl_less (Fin a) (Fin b) = (a < b)"
| "fl_less _ _ = False"

fun fl_le :: "fl \<Rightarrow> fl \<Rightarrow> bool" where
  "fl_le (Fin a) (Fin b) = (a \<le> b)"
| "fl_le _ _ = False"

fun fl_add :: "fl \<Rightarrow> fl \<Rightarrow> fl" where
  "fl_add (Fin a) (Fin b) = Fin (a + b)"
| "fl_add _ _ = NaN"

fun fl_sub :: "fl \<Rightarrow> fl \<Rightarrow> fl" where
  "fl_sub (Fin a) (Fin b) = Fin (a - b)"
| "fl_sub _ _ = NaN"

fun np_hypot :: "fl \<Rightarrow> fl \<Rightarrow> fl" where
  "np_hypot (Fin a) (Fin b) = Fin (sqrt (a * a + b * b))"
| "np_hypot _ _ = NaN"

text \<open>\<open>int(x)\<close> truncates toward zero and raises ValueError on NaN.\<close>

definition trunc :: "real \<Rightarrow> int" where
  "trunc x = (if 0 \<le> x then \<lfloor>x\<rfloor> else \<lceil>x\<rceil>)"

fun py_int :: "fl \<Rightarrow> py_error + int" where
  "py_int NaN = Inl ValueError"
| "py_int (Fin x) = Inr (trunc x)"

text \<open>\<open>round(x)\<close> of Python 3 rounds half to even.\<close>

definition py_round :: "real \<Rightarrow> int" where
  "py_round x = (let f = \<lfloor>x\<rfloor>; d = x - of_int f in
     if d < 1 / 2 then f else if 1 / 2 < d then f + 1 else if even f then f else f + 1)"

fun int_round :: "fl \<Rightarrow> py_error + int" where
  "int_round NaN = Inl ValueError"
| "int_round (Fin x) = Inr (py_round x)"

text \<open>
  A two-dimensional array keeps its number of columns beside its rows, since an array
  with no rows still has a second dimension.
\<close>

datatype 'a array2 = Array2 (ncols: nat) (rows: "'a list list")

definition shape0 :: "'a array2 \<Rightarrow> nat" where
  "shape0 A = length (rows A)"

definition shape1 :: "'a array2 \<Rightarrow> nat" where
  "shape1 A = ncols A"

type_synonym image = "nat array2"
type_synonym ccm = "fl array2"

text \<open>A slice bound: a negative bound counts from the end, and both are clipped.\<close>

definition slice_bound :: "int \<Rightarrow> nat \<Rightarrow> nat" where
  "slice_bound i n = (if i < 0 then nat (max (i + int n) 0) else min (nat i) n)"

definition py_slice :: "int \<Rightarrow> int \<Rightarrow> 'a list \<Rightarrow> 'a list" where
  "py_slice a b xs =
     (let s = slice_bound a (length xs); e = slice_bound b (length xs)
      in take (e - s) (drop s xs))"

definition slice2 :: "int \<Rightarrow> int \<Rightarrow> int \<Rightarrow> int \<Rightarrow> 'a array2 \<Rightarrow> 'a array2" where
  "slice2 r0 r1 c0 c1 A =
     Array2 (slice_bound c1 (ncols A) - slice_bound c0 (ncols A))
            (map (py_slice c0 c1) (py_slice r0 r1 (rows A)))"

text \<open>
  \<open>np.argmax\<close> on the flattened array followed by \<open>np.unravel_index\<close>; \<open>result.max()\<close>.
  A NaN counts as the maximum and the first occurrence wins. Both raise ValueError
  on an empty array.
\<close>

fun first_index :: "('a \<Rightarrow> bool) \<Rightarrow> 'a list \<Rightarrow> nat" where
  "first_index P [] = 0"
| "first_index P (x # xs) = (if P x then 0 else Suc (first_index P xs))"

fun fl_max2 :: "fl \<Rightarrow> fl \<Rightarrow> fl" where
  "fl_max2 (Fin a) (Fin b) = Fin (max a b)"
| "fl_max2 _ _ = NaN"

definition np_max :: "ccm \<Rightarrow> py_error + fl" where
  "np_max A = (case concat (rows A) of [] \<Rightarrow> Inl ValueError
               | v # vs \<Rightarrow> Inr (foldl fl_max2 v vs))"

definition np_argmax :: "ccm \<Rightarrow> py_error + nat \<times> nat" where
  "np_argmax A = (case concat (rows A) of [] \<Rightarrow> Inl ValueError
     | v # vs \<Rightarrow>
        (let flat = v # vs;
             k = (if \<exists>u \<in> set flat. isnan u then first_index isnan flat
                  else first_index (\<lambda>u. u = foldl fl_max2 v vs) flat)
         in Inr (k div ncols A, k mod ncols A)))"

section \<open>Options and external collaborators\<close>

text \<open>
  The keyword options that \<open>pattern_matching\<close> hands down, and the library functions
  the code calls: \<open>scipy.ndimage\<close> rotation, Gaussian filter and distance transform,
  \<open>np.gradient\<close>, the normalisation by median and standard deviation, the template
  matcher (\<open>cv2.matchTemplate\<close> with its metric \<open>mtype\<close> unless another is given), the
  two interpolators that \<open>pmlib\<close> imports from \<open>lib\<close> under the names
  \<open>x2y2_interpolation_poly\<close> and \<open>x2y2_interpolation_near\<close> (in \<open>lib\<close> a least-squares
  polynomial and \<open>griddata\<close>), and the projection of \<open>get_drift_vectors\<close>. The
  interpolators and the coordinate transforms act on one destination point at a time; a
  float they return may be NaN. The matcher, the rotation and the gradient may raise.

  The last four fields are the double-precision arithmetic behind the extent of a rotated
  template: \<open>np.radians\<close>, \<open>np.cos\<close> and \<open>np.sin\<close> as NumPy computes them, and
  \<open>float64\<close>, the rounding of the exact result of a product or a sum to the nearest
  double. In doubles the cosine of a right angle and the sine of a straight angle are not
  zero, and the ceiling taken in \<open>get_rotated_template\<close> can make that visible.
\<close>

record kwargs =
  angles :: "real list"
  mcc_norm :: bool
  rot_order :: nat
  hes_norm :: bool
  hes_smth :: bool
  template_matcher :: "image \<Rightarrow> image \<Rightarrow> py_error + ccm"
  nd_rotate :: "image \<Rightarrow> real \<Rightarrow> nat \<Rightarrow> py_error + image"
  gaussian_filter :: "ccm \<Rightarrow> ccm"
  np_gradient :: "ccm \<Rightarrow> py_error + ccm \<times> ccm"
  median_std_norm :: "ccm \<Rightarrow> ccm"
  median_std_score :: "real \<Rightarrow> ccm \<Rightarrow> fl"
  min_fg_pts :: int
  min_border :: real
  max_border :: real
  old_border :: bool
  x2y2_interpolation_poly ::
    "real list \<Rightarrow> real list \<Rightarrow> real list \<Rightarrow> real list \<Rightarrow> fl \<times> fl \<Rightarrow> fl \<times> fl"
  x2y2_interpolation_near ::
    "real list \<Rightarrow> real list \<Rightarrow> fl list \<Rightarrow> fl list \<Rightarrow> fl \<times> fl \<Rightarrow> fl \<times> fl"
  distance_transform_edt :: "bool array2 \<Rightarrow> real array2"
  domain_geo2pix :: "fl \<times> fl \<Rightarrow> fl \<times> fl"
  np_radians :: "real \<Rightarrow> real"
  np_cos :: "real \<Rightarrow> real"
  np_sin :: "real \<Rightarrow> real"
  float64 :: "real \<Rightarrow> real"

section \<open>pmlib.get\_hessian\<close>

definition hypot2 :: "ccm \<Rightarrow> ccm \<Rightarrow> ccm" where
  "hypot2 A B = Array2 (ncols A) (map (\<lambda>(ra, rb). map (\<lambda>(a, b). np_hypot a b) (zip ra rb))
                                      (zip (rows A) (rows B)))"

definition get_hessian :: "('z kwargs_scheme) \<Rightarrow> ccm \<Rightarrow> py_error + ccm" where
  "get_hessian kw c =
     (let ccm2 = (if hes_smth kw then gaussian_filter kw c else c) in
      case np_gradient kw ccm2 of Inl e \<Rightarrow> Inl e
      | Inr (dcc_dy, dcc_dx) \<Rightarrow>
     (case np_gradient kw dcc_dx of Inl e \<Rightarrow> Inl e
      | Inr (_, d2cc_dx2) \<Rightarrow>
     (case np_gradient kw dcc_dy of Inl e \<Rightarrow> Inl e
      | Inr (d2cc_dy2, _) \<Rightarrow>
        (let hes = hypot2 d2cc_dx2 d2cc_dy2 in
         Inr (if hes_norm kw then median_std_norm kw hes else hes)))))"

text \<open>\<open>a[ij]\<close> for an index pair: IndexError outside the array.\<close>

definition at2 :: "'a array2 \<Rightarrow> nat \<times> nat \<Rightarrow> py_error + 'a" where
  "at2 A ij = (if fst ij < length (rows A) \<and> snd ij < length (rows A ! fst ij)
               then Inr (rows A ! fst ij ! snd ij) else Inl IndexError)"

section \<open>pmlib.get\_rotated\_template\<close>

text \<open>
  The image is a NumPy array, as \<open>pattern_matching\<close> passes it. In \<open>hwsrot\<close> and
  \<open>hwsrot2\<close> each product and each sum is rounded as a double operation is, before the
  ceiling is taken. The template size is an integer, so \<open>hws\<close> and the two borders are
  integers or halves and exact.
\<close>

definition get_rotated_template ::
  "('z kwargs_scheme) \<Rightarrow> image \<Rightarrow> fl \<Rightarrow> fl \<Rightarrow> int \<Rightarrow> fl \<Rightarrow> py_error + image" where
  "get_rotated_template kw img r c tsize angle0 =
     (case angle0 of NaN \<Rightarrow> Inl ValueError | Fin angle \<Rightarrow>
      let hws = real_of_int tsize / 2;
          angle_rad = np_radians kw angle;
          hwsrot = \<lceil>float64 kw (float64 kw (hws * \<bar>np_cos kw angle_rad\<bar>)
                                + float64 kw (hws * \<bar>np_sin kw angle_rad\<bar>))\<rceil>;
          hwsrot2 = \<lceil>float64 kw (float64 kw (of_int hwsrot * \<bar>np_cos kw angle_rad\<bar>)
                                 + float64 kw (of_int hwsrot * \<bar>np_sin kw angle_rad\<bar>))\<rceil>;
          rotBorder1 = trunc (of_int hwsrot2 - hws);
          rotBorder2 = trunc (of_int rotBorder1 + hws + hws)
      in case py_int (fl_sub r (Fin (of_int hwsrot))) of Inl e \<Rightarrow> Inl e | Inr r0 \<Rightarrow>
        (case py_int (fl_add (fl_add r (Fin (of_int hwsrot))) (Fin 1)) of Inl e \<Rightarrow> Inl e | Inr r1 \<Rightarrow>
        (case py_int (fl_sub c (Fin (of_int hwsrot))) of Inl e \<Rightarrow> Inl e | Inr c0 \<Rightarrow>
        (case py_int (fl_add (fl_add c (Fin (of_int hwsrot))) (Fin 1)) of Inl e \<Rightarrow> Inl e | Inr c1 \<Rightarrow>
        (case nd_rotate kw (slice2 r0 r1 c0 c1 img) angle (rot_order kw) of Inl e \<Rightarrow> Inl e
         | Inr templateRot \<Rightarrow>
             Inr (slice2 rotBorder1 rotBorder2 rotBorder1 rotBorder2 templateRot))))))"

text \<open>
  With a NaN angle the first conversion \<open>int(hwsrot2 - hws)\<close> raises ValueError.
\<close>

section \<open>pmlib.rotate\_and\_match\<close>

text \<open>
  The function returns a tuple of six NaN from inside the loop and a tuple of seven values
  after it.
\<close>

datatype rm_tuple =
    Tuple6 fl fl fl fl fl fl
  | Tuple7 fl fl fl fl fl ccm image

record best =
  best_r :: real
  best_a :: real
  best_result :: ccm
  best_template :: image
  best_ij :: "nat \<times> nat"

text \<open>
  \<open>result.max() > best_r\<close>, where \<open>best_r\<close> starts as minus infinity (no best yet).
\<close>

fun improves :: "fl \<Rightarrow> best option \<Rightarrow> bool" where
  "improves NaN _ = False"
| "improves (Fin m) None = True"
| "improves (Fin m) (Some b) = (best_r b < m)"

fun the_fin :: "fl \<Rightarrow> real" where
  "the_fin (Fin m) = m"
| "the_fin NaN = 0"

text \<open>
  The statements after the loop. They read \<open>best_result\<close>, unbound when no angle improved
  on minus infinity, and \<open>template\<close>, the template of the last angle.
\<close>

definition rm_finish ::
  "('z kwargs_scheme) \<Rightarrow> image \<Rightarrow> best option \<Rightarrow> image option \<Rightarrow> py_error + rm_tuple" where
  "rm_finish kw image2 bo lt =
     (case bo of None \<Rightarrow> Inl UnboundLocalError
      | Some b \<Rightarrow>
     (case lt of None \<Rightarrow> Inl UnboundLocalError
      | Some template \<Rightarrow>
     (case get_hessian kw (best_result b) of Inl e \<Rightarrow> Inl e
      | Inr hes \<Rightarrow>
     (case at2 hes (best_ij b) of Inl e \<Rightarrow> Inl e
      | Inr best_h \<Rightarrow>
        (let dy = real (fst (best_ij b)) - (real (shape0 image2) - real (shape0 template)) / 2;
             dx = real (snd (best_ij b)) - (real (shape1 image2) - real (shape1 template)) / 2;
             r = (if mcc_norm kw then median_std_score kw (best_r b) (best_result b)
                  else Fin (best_r b))
         in Inr (Tuple7 (Fin dx) (Fin dy) (Fin (best_a b)) r best_h
                        (best_result b) (best_template b)))))))"

fun rm_loop ::
  "('z kwargs_scheme) \<Rightarrow> image \<Rightarrow> fl \<Rightarrow> fl \<Rightarrow> int \<Rightarrow> image \<Rightarrow> fl \<Rightarrow> real list \<Rightarrow>
   best option \<Rightarrow> image option \<Rightarrow> py_error + rm_tuple" where
  "rm_loop kw img1 x y img_size image2 alpha0 [] bo lt = rm_finish kw image2 bo lt"
| "rm_loop kw img1 x y img_size image2 alpha0 (angle # rest) bo lt =
     (case get_rotated_template kw img1 y x img_size (fl_sub (Fin angle) alpha0) of Inl e \<Rightarrow> Inl e
      | Inr template \<Rightarrow>
        if int (shape0 template) < img_size \<or> int (shape1 template) < img_size
        then Inr (Tuple6 NaN NaN NaN NaN NaN NaN)
        else
     (case template_matcher kw image2 template of Inl e \<Rightarrow> Inl e
      | Inr result \<Rightarrow>
     (case np_argmax result of Inl e \<Rightarrow> Inl e
      | Inr ij \<Rightarrow>
     (case np_max result of Inl e \<Rightarrow> Inl e
      | Inr m \<Rightarrow>
        rm_loop kw img1 x y img_size image2 alpha0 rest
          (if improves m bo
           then Some \<lparr>best_r = the_fin m, best_a = angle, best_result = result,
                      best_template = template, best_ij = ij\<rparr>
           else bo)
          (Some template)))))"

definition rotate_and_match ::
  "('z kwargs_scheme) \<Rightarrow> image \<Rightarrow> fl \<Rightarrow> fl \<Rightarrow> int \<Rightarrow> image \<Rightarrow> fl \<Rightarrow> py_error + rm_tuple" where
  "rotate_and_match kw img1 x y img_size image2 alpha0 =
     rm_loop kw img1 x y img_size image2 alpha0 (angles kw) None None"

section \<open>pmlib.use\_mcc\<close>

text \<open>
  The call unpacks the tuple of \<open>rotate_and_match\<close> into seven names, which raises
  ValueError on a tuple of another length.
\<close>

definition use_mcc ::
  "('z kwargs_scheme) \<Rightarrow> fl \<Rightarrow> fl \<Rightarrow> fl \<Rightarrow> fl \<Rightarrow> fl \<Rightarrow> image \<Rightarrow> image \<Rightarrow> int \<Rightarrow> fl \<Rightarrow>
   py_error + fl \<times> fl \<times> fl \<times> fl \<times> fl" where
  "use_mcc kw x1p y1p x2p0 y2p0 border img1 img2 img_size alpha0 =
     (case int_round x2p0 of Inl e \<Rightarrow> Inl e | Inr x2p \<Rightarrow>
     (case int_round y2p0 of Inl e \<Rightarrow> Inl e | Inr y2p \<Rightarrow>
     (let hws = trunc (real_of_int img_size / 2);
          lo = (\<lambda>p. py_int (fl_sub (Fin (of_int (p - hws))) border));
          hi = (\<lambda>p. py_int (fl_add (fl_add (Fin (of_int (p + hws))) border) (Fin 1)))
      in case lo y2p of Inl e \<Rightarrow> Inl e | Inr r0 \<Rightarrow>
        (case hi y2p of Inl e \<Rightarrow> Inl e | Inr r1 \<Rightarrow>
        (case lo x2p of Inl e \<Rightarrow> Inl e | Inr c0 \<Rightarrow>
        (case hi x2p of Inl e \<Rightarrow> Inl e | Inr c1 \<Rightarrow>
        (case rotate_and_match kw img1 x1p y1p img_size (slice2 r0 r1 c0 c1 img2) alpha0 of
           Inl e \<Rightarrow> Inl e
         | Inr (Tuple6 _ _ _ _ _ _) \<Rightarrow> Inl ValueError
         | Inr (Tuple7 dx dy a r h bestr bestt) \<Rightarrow>
             Inr (fl_add (Fin (of_int x2p)) dx, fl_add (Fin (of_int y2p)) dy, a, r, h))))))))"

section \<open>Nansat objects\<close>

text \<open>
  What the code reads of a Nansat object: band 1, \<open>shape()\<close> as (rows, columns),
  \<open>transform_points\<close> from pixel to geographic coordinates and back (the call with a
  third argument 1), and \<open>get_corners()\<close>.
\<close>

record nansat =
  band :: image
  nshape :: "nat \<times> nat"
  pix2geo :: "fl \<times> fl \<Rightarrow> fl \<times> fl"
  geo2pix :: "fl \<times> fl \<Rightarrow> fl \<times> fl"
  get_corners :: "fl list \<times> fl list"

section \<open>pmlib.get\_initial\_rotation\<close>

definition np_arctan2 :: "real \<Rightarrow> real \<Rightarrow> real" where
  "np_arctan2 b a =
     (if 0 < a then arctan (b / a)
      else if a < 0 then (if 0 \<le> b then arctan (b / a) + pi else arctan (b / a) - pi)
      else if 0 < b then pi / 2 else if b < 0 then - pi / 2 else 0)"

fun degrees_arctan2 :: "fl \<Rightarrow> fl \<Rightarrow> fl" where
  "degrees_arctan2 (Fin b) (Fin a) = Fin (np_arctan2 b a * 180 / pi)"
| "degrees_arctan2 _ _ = NaN"

definition get_initial_rotation :: "nansat \<Rightarrow> nansat \<Rightarrow> py_error + fl" where
  "get_initial_rotation n1 n2 =
     (case get_corners n2 of (lons, lats) \<Rightarrow>
        if length lons < 2 \<or> length lats < 2 then Inl IndexError
        else
          (let c0 = geo2pix n1 (lons ! 0, lats ! 0);
               c1 = geo2pix n1 (lons ! 1, lats ! 1);
               b = fl_sub (fst c1) (fst c0);
               a = fl_sub (snd c1) (snd c0)
           in Inr (degrees_arctan2 b a)))"

section \<open>pmlib.use\_mcc\_mp\<close>

text \<open>
  The shared arguments: the five per-point vectors, already restricted to the valid
  points, then both images, the template size and the rotation. The function indexes the
  vectors at \<open>i\<close>; the progress line it prints is not part of the result.
\<close>

record shared =
  sh_x1 :: "fl list"
  sh_y1 :: "fl list"
  sh_x2fg :: "fl list"
  sh_y2fg :: "fl list"
  sh_border :: "fl list"
  sh_img1 :: image
  sh_img2 :: image
  sh_img_size :: int
  sh_alpha0 :: fl

definition use_mcc_mp ::
  "('z kwargs_scheme) \<Rightarrow> shared \<Rightarrow> nat \<Rightarrow> py_error + fl \<times> fl \<times> fl \<times> fl \<times> fl" where
  "use_mcc_mp kw sh i =
     (if i < length (sh_x1 sh) \<and> i < length (sh_y1 sh) \<and> i < length (sh_x2fg sh)
         \<and> i < length (sh_y2fg sh) \<and> i < length (sh_border sh)
      then use_mcc kw (sh_x1 sh ! i) (sh_y1 sh ! i) (sh_x2fg sh ! i) (sh_y2fg sh ! i)
             (sh_border sh ! i) (sh_img1 sh) (sh_img2 sh) (sh_img_size sh) (sh_alpha0 sh)
      else Inl IndexError)"

section \<open>pmlib.get\_distance\_to\_nearest\_keypoint\<close>

text \<open>
  Conversions to 16-bit integers truncate and wrap. An index array entry below zero
  counts from the end; one outside the axis raises IndexError. A sequence of results
  stops at the first error, as the exception would.
\<close>

definition astype_uint16 :: "real \<Rightarrow> int" where
  "astype_uint16 x = uint (word_of_int (trunc x) :: 16 word)"

fun astype_int16 :: "fl \<Rightarrow> int" where
  "astype_int16 NaN = 0"
| "astype_int16 (Fin x) = sint (word_of_int (trunc x) :: 16 word)"

definition np_index :: "int \<Rightarrow> nat \<Rightarrow> py_error + nat" where
  "np_index i n = (if 0 \<le> i \<and> i < int n then Inr (nat i)
                   else if - int n \<le> i \<and> i < 0 then Inr (nat (i + int n))
                   else Inl IndexError)"

fun sequence :: "(py_error + 'a) list \<Rightarrow> py_error + 'a list" where
  "sequence [] = Inr []"
| "sequence (Inl e # _) = Inl e"
| "sequence (Inr v # rs) = (case sequence rs of Inl e \<Rightarrow> Inl e | Inr vs \<Rightarrow> Inr (v # vs))"

definition index_pair :: "nat \<times> nat \<Rightarrow> int \<times> int \<Rightarrow> py_error + nat \<times> nat" where
  "index_pair shp rc =
     (case np_index (fst rc) (fst shp) of Inl e \<Rightarrow> Inl e
      | Inr r \<Rightarrow> (case np_index (snd rc) (snd shp) of Inl e \<Rightarrow> Inl e | Inr c \<Rightarrow> Inr (r, c)))"

definition tabulate2 :: "nat \<times> nat \<Rightarrow> (nat \<times> nat \<Rightarrow> 'a) \<Rightarrow> 'a array2" where
  "tabulate2 shp f = Array2 (snd shp) (map (\<lambda>r. map (\<lambda>c. f (r, c)) [0..<snd shp]) [0..<fst shp])"

definition get_distance_to_nearest_keypoint ::
  "('z kwargs_scheme) \<Rightarrow> real list \<Rightarrow> real list \<Rightarrow> nat \<times> nat \<Rightarrow> py_error + real array2" where
  "get_distance_to_nearest_keypoint kw x1 y1 shp =
     (if length x1 \<noteq> length y1 then Inl IndexError
      else case sequence (map (\<lambda>(y, x). index_pair shp (astype_uint16 y, astype_uint16 x))
                              (zip y1 x1)) of
        Inl e \<Rightarrow> Inl e
      | Inr idx \<Rightarrow>
          (let seed = tabulate2 shp (\<lambda>rc. rc \<in> set idx);
               not_seed = Array2 (ncols seed) (map (map Not) (rows seed))
           in Inr (distance_transform_edt kw not_seed)))"

section \<open>pmlib.prepare\_first\_guess\<close>

text \<open>The border under the distance policy (\<open>old_border\<close>), before it is clamped.\<close>

definition in_bounds :: "nat \<times> nat \<Rightarrow> fl \<Rightarrow> fl \<Rightarrow> bool" where
  "in_bounds shp x y \<longleftrightarrow>
     fl_le (Fin 0) x \<and> fl_less x (Fin (real (snd shp))) \<and>
     fl_le (Fin 0) y \<and> fl_less y (Fin (real (fst shp)))"

definition border_distance ::
  "('z kwargs_scheme) \<Rightarrow> fl list \<Rightarrow> fl list \<Rightarrow> nat \<times> nat \<Rightarrow> real list \<Rightarrow> real list \<Rightarrow>
   py_error + fl list" where
  "border_distance kw x1_dst y1_dst shp x1 y1 =
     (case get_distance_to_nearest_keypoint kw x1 y1 shp of Inl e \<Rightarrow> Inl e
      | Inr border_img \<Rightarrow>
          sequence (map (\<lambda>(x, y).
              if in_bounds shp x y
              then (case index_pair (shape0 border_img, shape1 border_img)
                           (astype_int16 y, astype_int16 x) of
                      Inl e \<Rightarrow> Inl e
                    | Inr rc \<Rightarrow> (case at2 border_img rc of Inl e \<Rightarrow> Inl e
                                 | Inr d \<Rightarrow> Inr (Fin d)))
              else Inr (Fin (max_border kw)))
            (zip x1_dst y1_dst)))"

text \<open>The border under the error policy, before it is clamped.\<close>

definition interpolated_error ::
  "('z kwargs_scheme) \<Rightarrow> real list \<Rightarrow> real list \<Rightarrow> real list \<Rightarrow> real list \<Rightarrow> fl \<times> fl \<Rightarrow> fl \<times> fl" where
  "interpolated_error kw x1 y1 x2 y2 p =
     (let tst = map (\<lambda>(x, y). x2y2_interpolation_poly kw x1 y1 x2 y2 (Fin x, Fin y)) (zip x1 y1);
          x2e = map (\<lambda>(a, t). fl_sub (Fin a) (fst t)) (zip x2 tst);
          y2e = map (\<lambda>(a, t). fl_sub (Fin a) (snd t)) (zip y2 tst)
      in x2y2_interpolation_near kw x1 y1 x2e y2e p)"

definition border_error ::
  "('z kwargs_scheme) \<Rightarrow> fl list \<Rightarrow> fl list \<Rightarrow> real list \<Rightarrow> real list \<Rightarrow> real list \<Rightarrow> real list \<Rightarrow>
   fl list" where
  "border_error kw x1_dst y1_dst x1 y1 x2 y2 =
     map (\<lambda>p. case interpolated_error kw x1 y1 x2 y2 p of
                  (x2dif, y2dif) \<Rightarrow> np_hypot x2dif y2dif)
         (zip x1_dst y1_dst)"

text \<open>The three assignments that define the searching distance.\<close>

definition clamp_border :: "real \<Rightarrow> real \<Rightarrow> fl \<Rightarrow> fl \<Rightarrow> fl" where
  "clamp_border lo hi y2fg b =
     (let b1 = (if fl_less b (Fin lo) then Fin lo else b);
          b2 = (if fl_less (Fin hi) b1 then Fin hi else b1)
      in if isnan y2fg then Fin hi else b2)"

definition prepare_first_guess ::
  "('z kwargs_scheme) \<Rightarrow> fl list \<Rightarrow> fl list \<Rightarrow> nansat \<Rightarrow> real list \<Rightarrow> real list \<Rightarrow>
   nansat \<Rightarrow> real list \<Rightarrow> real list \<Rightarrow> int \<Rightarrow> py_error + fl list \<times> fl list \<times> fl list" where
  "prepare_first_guess kw x1_dst y1_dst n1 x1 y1 n2 x2 y2 img_size =
     (if length x1_dst \<noteq> length y1_dst then Inl ValueError
      else if min_fg_pts kw < int (length x1) then
        (if length y1 \<noteq> length x1 \<or> length x2 \<noteq> length x1 \<or> length y2 \<noteq> length x1
         then Inl ValueError
         else
           (let dst = zip x1_dst y1_dst;
                p2 = map (x2y2_interpolation_poly kw x1 y1 x2 y2) dst;
                fg = map (x2y2_interpolation_near kw x1 y1 (map Fin x2) (map Fin y2)) dst
            in case (if old_border kw then border_distance kw x1_dst y1_dst (nshape n1) x1 y1
                     else Inr (border_error kw x1_dst y1_dst x1 y1 x2 y2)) of
                 Inl e \<Rightarrow> Inl e
               | Inr border0 \<Rightarrow>
                   Inr (map (\<lambda>(f, p). if isnan (fst f) then fst p else fst f) (zip fg p2),
                        map (\<lambda>(f, p). if isnan (snd f) then snd p else snd f) (zip fg p2),
                        map (\<lambda>(f, b). clamp_border (min_border kw) (max_border kw) (snd f) b)
                            (zip fg border0))))
      else
        (let fg = map (\<lambda>p. geo2pix n2 (pix2geo n1 p)) (zip x1_dst y1_dst)
         in Inr (map fst fg, map snd fg,
                 replicate (length x1_dst) (Fin (max_border kw * 2)))))"

text \<open>
  The two vectors of query coordinates have one entry per query point, and so have the
  four vectors of correspondences on the interpolating path; NumPy raises on vectors of
  different lengths.
\<close>

section \<open>lib.get\_drift\_vectors and lib.\_fill\_gpi\<close>

definition get_drift_vectors ::
  "('z kwargs_scheme) \<Rightarrow> nansat \<Rightarrow> fl list \<Rightarrow> fl list \<Rightarrow> nansat \<Rightarrow> fl list \<Rightarrow> fl list \<Rightarrow>
   fl list \<times> fl list \<times> fl list \<times> fl list \<times> fl list \<times> fl list" where
  "get_drift_vectors kw n1 x1 y1 n2 x2 y2 =
     (let ll1 = map (pix2geo n1) (zip x1 y1);
          ll2 = map (pix2geo n2) (zip x2 y2);
          p1 = map (domain_geo2pix kw) ll1;
          p2 = map (domain_geo2pix kw) ll2
      in (map (\<lambda>(a, b). fl_sub (fst b) (fst a)) (zip p1 p2),
          map (\<lambda>(a, b). fl_sub (snd a) (snd b)) (zip p1 p2),
          map fst ll1, map snd ll1, map fst ll2, map snd ll2))"

definition flatten :: "'a array2 \<Rightarrow> 'a list" where
  "flatten A = concat (rows A)"

definition reshape :: "nat \<times> nat \<Rightarrow> 'a list \<Rightarrow> 'a array2" where
  "reshape shp xs =
     Array2 (snd shp) (map (\<lambda>r. take (snd shp) (drop (r * snd shp) xs)) [0..<fst shp])"

text \<open>\<open>x[gpi]\<close> for a Boolean vector, and the assignment \<open>y[gpi] = data\<close> on a vector
  \<open>y\<close> filled with \<open>d\<close>.\<close>

definition boolean_index :: "bool list \<Rightarrow> 'a list \<Rightarrow> 'a list" where
  "boolean_index gpi xs = map snd (filter fst (zip gpi xs))"

fun scatter :: "bool list \<Rightarrow> 'a list \<Rightarrow> 'a \<Rightarrow> 'a list" where
  "scatter [] vs d = []"
| "scatter (True # g) (v # vs) d = v # scatter g vs d"
| "scatter (True # g) [] d = d # scatter g [] d"
| "scatter (False # g) vs d = d # scatter g vs d"

definition count_true :: "bool list \<Rightarrow> nat" where
  "count_true gpi = length (filter id gpi)"

definition fill_gpi :: "nat \<times> nat \<Rightarrow> bool list \<Rightarrow> fl list \<Rightarrow> py_error + fl array2" where
  "fill_gpi shp gpi data =
     (if length gpi \<noteq> fst shp * snd shp then Inl IndexError
      else if length data = count_true gpi then Inr (reshape shp (scatter gpi data NaN))
      else if length data = 1
           then Inr (reshape shp (scatter gpi (replicate (count_true gpi) (data ! 0)) NaN))
      else Inl ValueError)"

section \<open>pmlib.pattern\_matching\<close>

text \<open>
  The mask of good input points. \<open>hws\<close> is half the template size as a fraction (the
  division of Python 3), and \<open>hws_hypot\<close> half its diagonal.
\<close>

definition valid_point ::
  "real \<Rightarrow> real \<Rightarrow> nat \<times> nat \<Rightarrow> nat \<times> nat \<Rightarrow> fl \<Rightarrow> fl \<Rightarrow> fl \<Rightarrow> fl \<Rightarrow> fl \<Rightarrow> bool" where
  "valid_point hws margin shp1 shp2 x2fg y2fg border x1_dst y1_dst \<longleftrightarrow>
     (let hws_hypot = np_hypot (Fin hws) (Fin hws);
          lo = (\<lambda>v pad. fl_sub (fl_sub v pad) (Fin margin));
          hi = (\<lambda>v pad. fl_add (fl_add v pad) (Fin margin))
      in fl_less (Fin 0) (lo (fl_sub x2fg border) (Fin hws)) \<and>
         fl_less (Fin 0) (lo (fl_sub y2fg border) (Fin hws)) \<and>
         fl_less (hi (fl_add x2fg border) (Fin hws)) (Fin (real (snd shp2))) \<and>
         fl_less (hi (fl_add y2fg border) (Fin hws)) (Fin (real (fst shp2))) \<and>
         fl_less (Fin 0) (lo x1_dst hws_hypot) \<and>
         fl_less (Fin 0) (lo y1_dst hws_hypot) \<and>
         fl_less (hi x1_dst hws_hypot) (Fin (real (snd shp1))) \<and>
         fl_less (hi y1_dst hws_hypot) (Fin (real (fst shp1))))"

definition valid_mask ::
  "int \<Rightarrow> int \<Rightarrow> nansat \<Rightarrow> nansat \<Rightarrow> fl list \<Rightarrow> fl list \<Rightarrow> fl list \<Rightarrow> fl list \<Rightarrow> fl list \<Rightarrow>
   bool list" where
  "valid_mask img_size margin n1 n2 x2fg y2fg border x1_dst y1_dst =
     map (\<lambda>(a, b, c, d, e).
            valid_point (real_of_int img_size / 2) (real_of_int margin) (nshape n1) (nshape n2)
                        a b c d e)
         (zip x2fg (zip y2fg (zip border (zip x1_dst y1_dst))))"

text \<open>
  The pool of worker processes is represented by what \<open>Pool.map\<close> returns: the results of
  the tasks in the order of their indices, or the error of a task. A pool cannot be made
  of a negative number of processes.
\<close>

definition run_tasks ::
  "('z kwargs_scheme) \<Rightarrow> shared \<Rightarrow> int \<Rightarrow> nat \<Rightarrow> py_error + (fl \<times> fl \<times> fl \<times> fl \<times> fl) list" where
  "run_tasks kw sh threads n =
     (if threads = 0 then sequence (map (use_mcc_mp kw sh) [0..<n])
      else if threads < 0 then Inl ValueError
      else sequence (map (use_mcc_mp kw sh) [0..<n]))"

type_synonym grids = "fl array2 \<times> fl array2 \<times> fl array2 \<times> fl array2 \<times> fl array2 \<times> fl array2 \<times> fl array2"

definition nan_grid :: "nat \<times> nat \<Rightarrow> fl array2" where
  "nan_grid shp = reshape shp (replicate (fst shp * snd shp) NaN)"

definition assemble ::
  "('z kwargs_scheme) \<Rightarrow> nat \<times> nat \<Rightarrow> bool list \<Rightarrow> nansat \<Rightarrow> nansat \<Rightarrow> fl list \<Rightarrow> fl list \<Rightarrow>
   (fl \<times> fl \<times> fl \<times> fl \<times> fl) list \<Rightarrow> py_error + grids" where
  "assemble kw dst_shape gpi n1 n2 x1_dst y1_dst results =
     (if length results = 0 then
        Inr (nan_grid dst_shape, nan_grid dst_shape, nan_grid dst_shape, nan_grid dst_shape,
             nan_grid dst_shape, nan_grid dst_shape, nan_grid dst_shape)
      else
        (let x2_dst = map (\<lambda>(x2, y2, a, r, h). x2) results;
             y2_dst = map (\<lambda>(x2, y2, a, r, h). y2) results;
             a = map (\<lambda>(x2, y2, a, r, h). a) results;
             r = map (\<lambda>(x2, y2, a, r, h). r) results;
             h = map (\<lambda>(x2, y2, a, r, h). h) results
         in case get_drift_vectors kw n1 (boolean_index gpi x1_dst) (boolean_index gpi y1_dst)
                                   n2 x2_dst y2_dst of
              (u, v, lon1, lat1, lon2, lat2) \<Rightarrow>
          (case fill_gpi dst_shape gpi lon2 of Inl e \<Rightarrow> Inl e | Inr lon2_dst \<Rightarrow>
          (case fill_gpi dst_shape gpi lat2 of Inl e \<Rightarrow> Inl e | Inr lat2_dst \<Rightarrow>
          (case fill_gpi dst_shape gpi u of Inl e \<Rightarrow> Inl e | Inr ug \<Rightarrow>
          (case fill_gpi dst_shape gpi v of Inl e \<Rightarrow> Inl e | Inr vg \<Rightarrow>
          (case fill_gpi dst_shape gpi a of Inl e \<Rightarrow> Inl e | Inr ag \<Rightarrow>
          (case fill_gpi dst_shape gpi r of Inl e \<Rightarrow> Inl e | Inr rg \<Rightarrow>
          (case fill_gpi dst_shape gpi h of Inl e \<Rightarrow> Inl e | Inr hg \<Rightarrow>
             Inr (ug, vg, ag, rg, hg, lon2_dst, lat2_dst))))))))))"

text \<open>
  The first half of \<open>pattern_matching\<close>: the query points on image 1, the first guess and
  the mask.
\<close>

record prepared =
  p_x1_dst :: "fl list"
  p_y1_dst :: "fl list"
  p_x2fg :: "fl list"
  p_y2fg :: "fl list"
  p_border :: "fl list"
  p_gpi :: "bool list"

definition prepare ::
  "('z kwargs_scheme) \<Rightarrow> fl array2 \<Rightarrow> fl array2 \<Rightarrow> nansat \<Rightarrow> real list \<Rightarrow> real list \<Rightarrow>
   nansat \<Rightarrow> real list \<Rightarrow> real list \<Rightarrow> int \<Rightarrow> int \<Rightarrow> py_error + prepared" where
  "prepare kw lon1_dst lat1_dst n1 x1 y1 n2 x2 y2 margin img_size =
     (if length (flatten lon1_dst) \<noteq> length (flatten lat1_dst) then Inl ExternalError
      else
        (let pts = map (geo2pix n1) (zip (flatten lon1_dst) (flatten lat1_dst));
             x1_dst = map fst pts;
             y1_dst = map snd pts
         in case prepare_first_guess kw x1_dst y1_dst n1 x1 y1 n2 x2 y2 img_size of
              Inl e \<Rightarrow> Inl e
            | Inr (x2fg, y2fg, border) \<Rightarrow>
                Inr \<lparr>p_x1_dst = x1_dst, p_y1_dst = y1_dst, p_x2fg = x2fg, p_y2fg = y2fg,
                     p_border = border,
                     p_gpi = valid_mask img_size margin n1 n2 x2fg y2fg border x1_dst y1_dst\<rparr>))"

definition shared_of :: "prepared \<Rightarrow> nansat \<Rightarrow> nansat \<Rightarrow> int \<Rightarrow> fl \<Rightarrow> shared" where
  "shared_of p n1 n2 img_size alpha0 =
     \<lparr>sh_x1 = boolean_index (p_gpi p) (p_x1_dst p),
      sh_y1 = boolean_index (p_gpi p) (p_y1_dst p),
      sh_x2fg = boolean_index (p_gpi p) (p_x2fg p),
      sh_y2fg = boolean_index (p_gpi p) (p_y2fg p),
      sh_border = boolean_index (p_gpi p) (p_border p),
      sh_img1 = band n1, sh_img2 = band n2, sh_img_size = img_size, sh_alpha0 = alpha0\<rparr>"

definition pattern_matching ::
  "('z kwargs_scheme) \<Rightarrow> fl array2 \<Rightarrow> fl array2 \<Rightarrow> nansat \<Rightarrow> real list \<Rightarrow> real list \<Rightarrow>
   nansat \<Rightarrow> real list \<Rightarrow> real list \<Rightarrow> int \<Rightarrow> int \<Rightarrow> int \<Rightarrow> py_error + grids" where
  "pattern_matching kw lon1_dst lat1_dst n1 x1 y1 n2 x2 y2 margin img_size threads =
     (let dst_shape = (shape0 lon1_dst, shape1 lon1_dst) in
      case prepare kw lon1_dst lat1_dst n1 x1 y1 n2 x2 y2 margin img_size of Inl e \<Rightarrow> Inl e
      | Inr p \<Rightarrow>
     (case get_initial_rotation n1 n2 of Inl e \<Rightarrow> Inl e
      | Inr alpha0 \<Rightarrow>
     (case run_tasks kw (shared_of p n1 n2 img_size alpha0) threads (count_true (p_gpi p)) of
        Inl e \<Rightarrow> Inl e
      | Inr results \<Rightarrow>
          assemble kw dst_shape (p_gpi p) n1 n2 (p_x1_dst p) (p_y1_dst p) results)))"

section \<open>Notions used in the statements\<close>

text \<open>
  For one candidate angle of \<open>rotate_and_match\<close>: the value \<open>result.max()\<close> of its
  iteration, whether its rotated template is smaller than the template size in a
  dimension, and whether its iteration runs to the comparison without an exception.
\<close>

definition corr_max ::
  "('z kwargs_scheme) \<Rightarrow> image \<Rightarrow> fl \<Rightarrow> fl \<Rightarrow> int \<Rightarrow> image \<Rightarrow> fl \<Rightarrow> real \<Rightarrow> fl" where
  "corr_max kw img1 x y img_size image2 alpha0 angle =
     (case get_rotated_template kw img1 y x img_size (fl_sub (Fin angle) alpha0) of
        Inl e \<Rightarrow> NaN
      | Inr template \<Rightarrow>
          (case template_matcher kw image2 template of Inl e \<Rightarrow> NaN
           | Inr result \<Rightarrow> (case np_max result of Inl e \<Rightarrow> NaN | Inr m \<Rightarrow> m)))"

definition undersized ::
  "('z kwargs_scheme) \<Rightarrow> image \<Rightarrow> fl \<Rightarrow> fl \<Rightarrow> int \<Rightarrow> fl \<Rightarrow> real \<Rightarrow> bool" where
  "undersized kw img1 x y img_size alpha0 angle =
     (case get_rotated_template kw img1 y x img_size (fl_sub (Fin angle) alpha0) of
        Inl e \<Rightarrow> False
      | Inr template \<Rightarrow> int (shape0 template) < img_size \<or> int (shape1 template) < img_size)"

definition iter_ok ::
  "('z kwargs_scheme) \<Rightarrow> image \<Rightarrow> fl \<Rightarrow> fl \<Rightarrow> int \<Rightarrow> image \<Rightarrow> fl \<Rightarrow> real \<Rightarrow> bool" where
  "iter_ok kw img1 x y img_size image2 alpha0 angle =
     (case get_rotated_template kw img1 y x img_size (fl_sub (Fin angle) alpha0) of
        Inl e \<Rightarrow> False
      | Inr template \<Rightarrow>
          (case template_matcher kw image2 template of Inl e \<Rightarrow> False
           | Inr result \<Rightarrow> flatten result \<noteq> []))"


text \<open>
  The claim on the mask in its own words: the search window on image 2, the first guess
  padded by border, half template size and margin, and the template window on image 1,
  the query point padded by half the template diagonal and margin, lie strictly inside
  their images. A window around an undefined coordinate lies in no image.
\<close>

fun padded_windows_inside ::
  "real \<Rightarrow> real \<Rightarrow> nat \<times> nat \<Rightarrow> nat \<times> nat \<Rightarrow> fl \<times> fl \<times> fl \<times> fl \<times> fl \<Rightarrow> bool" where
  "padded_windows_inside hws margin shp1 shp2 (Fin x2, Fin y2, Fin b, Fin x1, Fin y1) =
     (let pad2 = b + hws + margin; pad1 = sqrt (hws * hws + hws * hws) + margin
      in 0 < x2 - pad2 \<and> x2 + pad2 < real (snd shp2) \<and>
         0 < y2 - pad2 \<and> y2 + pad2 < real (fst shp2) \<and>
         0 < x1 - pad1 \<and> x1 + pad1 < real (snd shp1) \<and>
         0 < y1 - pad1 \<and> y1 + pad1 < real (fst shp1))"
| "padded_windows_inside hws margin shp1 shp2 _ = False"

text \<open>The query points with their first guesses, and the points handed to the matcher.\<close>

definition query_points :: "prepared \<Rightarrow> (fl \<times> fl \<times> fl \<times> fl \<times> fl) list" where
  "query_points p =
     zip (p_x2fg p) (zip (p_y2fg p) (zip (p_border p) (zip (p_x1_dst p) (p_y1_dst p))))"

definition dispatched :: "shared \<Rightarrow> (fl \<times> fl \<times> fl \<times> fl \<times> fl) list" where
  "dispatched sh =
     zip (sh_x2fg sh) (zip (sh_y2fg sh) (zip (sh_border sh) (zip (sh_x1 sh) (sh_y1 sh))))"

text \<open>
  The border of the distance policy as the claim words it: the distance transform
  sampled at the pixel location rounded to the nearest integer.
\<close>

definition border_as_claimed ::
  "real array2 \<Rightarrow> real \<Rightarrow> nat \<times> nat \<Rightarrow> fl list \<Rightarrow> fl list \<Rightarrow> fl list" where
  "border_as_claimed border_img max_b shp x1_dst y1_dst =
     map (\<lambda>(x, y). if in_bounds shp x y
                     then Fin (rows border_img ! nat (py_round (the_fin y))
                                               ! nat (py_round (the_fin x)))
                     else Fin max_b)
         (zip x1_dst y1_dst)"

text \<open>
  A grid of the query shape in which every cell outside the mask is NaN. The cell in row
  \<open>i\<close> and column \<open>j\<close> is the query point \<open>i * columns + j\<close> of the flattened grid.
\<close>

definition masked_cells_nan :: "nat \<times> nat \<Rightarrow> bool list \<Rightarrow> fl array2 \<Rightarrow> bool" where
  "masked_cells_nan shp gpi G \<longleftrightarrow>
     shape0 G = fst shp \<and> shape1 G = snd shp \<and>
     (\<forall>i j. i < fst shp \<and> j < snd shp \<and> \<not> gpi ! (i * snd shp + j) \<longrightarrow> rows G ! i ! j = NaN)"

section \<open>Concrete inputs\<close>

text \<open>
  Small images and stand-ins for the library functions, on which the functions above
  are run: an image of ones, a rotation that is exact for quarter turns, and a matcher
  that correlates the first pixel of the template only.
\<close>

definition const_image :: "nat \<Rightarrow> nat \<Rightarrow> image" where
  "const_image h w = Array2 w (replicate h (replicate w 1))"

definition rot90 :: "image \<Rightarrow> image" where
  "rot90 t = Array2 (length (rows t))
               (map (\<lambda>c. map (\<lambda>r. rows t ! r ! c) [0..<length (rows t)]) (rev [0..<ncols t]))"

definition quarter_rotate :: "image \<Rightarrow> real \<Rightarrow> nat \<Rightarrow> py_error + image" where
  "quarter_rotate t a k =
     Inr (if a = 90 then rot90 t else if a = - 90 then rot90 (rot90 (rot90 t)) else t)"

text \<open>
  The angle in radians, exactly. The concrete inputs take the cosine and the sine exactly
  and round nothing. At the angles they use, double precision gives the same two extents
  \<open>hwsrot\<close> and \<open>hwsrot2\<close>: at angle 0 doubles are exact; at 60 degrees and a template
  size of 35 both give 24 and 33; at 90 and -90 degrees and a template size of 2 both give
  1 and 1 (in doubles the cosine is about 6.1e-17 there, and 1 + 6.1e-17 rounds to 1). At
  180 degrees they differ (the sine is about 1.2e-16 in doubles and the ceiling of
  1 + 1.2e-16 is 2), and no concrete input uses that angle.
\<close>

definition radians :: "real \<Rightarrow> real" where
  "radians a = a * pi / 180"

definition corner_matcher :: "image \<Rightarrow> image \<Rightarrow> py_error + ccm" where
  "corner_matcher im t =
     (if shape0 im < shape0 t \<or> shape1 im < shape1 t \<or> shape0 t = 0 \<or> shape1 t = 0
      then Inl ExternalError
      else Inr (tabulate2 (shape0 im - shape0 t + 1, shape1 im - shape1 t + 1)
                  (\<lambda>rc. Fin (real (rows im ! fst rc ! snd rc * rows t ! 0 ! 0) / 100))))"

text \<open>
  A distance transform by exhaustive search: the distance from each cell to the nearest
  cell that is False.
\<close>

definition zero_cells :: "bool array2 \<Rightarrow> (nat \<times> nat) list" where
  "zero_cells s = concat (map (\<lambda>r. concat (map (\<lambda>c. if rows s ! r ! c then [] else [(r, c)])
                                                [0..<ncols s]))
                              [0..<length (rows s)])"

definition edt_brute :: "bool array2 \<Rightarrow> real array2" where
  "edt_brute s = tabulate2 (length (rows s), ncols s)
     (\<lambda>rc. case map (\<lambda>z. sqrt ((real (fst rc) - real (fst z)) * (real (fst rc) - real (fst z)) +
                              (real (snd rc) - real (snd z)) * (real (snd rc) - real (snd z))))
                     (zero_cells s) of
              [] \<Rightarrow> 0
            | d # ds \<Rightarrow> foldl min d ds)"

text \<open>
  Two interpolators: the polynomial of order zero in the displacement (the mean shift
  of the correspondences), and the value at the nearest correspondence, undefined outside
  the bounding box of the correspondences.
\<close>

definition mean_shift_poly ::
  "real list \<Rightarrow> real list \<Rightarrow> real list \<Rightarrow> real list \<Rightarrow> fl \<times> fl \<Rightarrow> fl \<times> fl" where
  "mean_shift_poly x1 y1 x2 y2 p =
     (if x1 = [] then (NaN, NaN)
      else (fl_add (fst p) (Fin ((sum_list x2 - sum_list x1) / real (length x1))),
            fl_add (snd p) (Fin ((sum_list y2 - sum_list y1) / real (length x1)))))"

fun nearest_in_box ::
  "real list \<Rightarrow> real list \<Rightarrow> fl list \<Rightarrow> fl list \<Rightarrow> fl \<times> fl \<Rightarrow> fl \<times> fl" where
  "nearest_in_box x1 y1 vx vy (Fin px, Fin py) =
     (if (\<exists>a \<in> set x1. a \<le> px) \<and> (\<exists>a \<in> set x1. px \<le> a) \<and>
         (\<exists>b \<in> set y1. b \<le> py) \<and> (\<exists>b \<in> set y1. py \<le> b)
      then (let ds = map (\<lambda>(a, b). (px - a) * (px - a) + (py - b) * (py - b)) (zip x1 y1);
                k = first_index (\<lambda>d. \<forall>e \<in> set ds. d \<le> e) ds
            in (vx ! k, vy ! k))
      else (NaN, NaN))"
| "nearest_in_box x1 y1 vx vy _ = (NaN, NaN)"

definition demo_kw :: kwargs where
  "demo_kw = \<lparr>angles = [0, 90, - 90], mcc_norm = False, rot_order = 1, hes_norm = False,
     hes_smth = False, template_matcher = corner_matcher, nd_rotate = quarter_rotate,
     gaussian_filter = (\<lambda>c. c), np_gradient = (\<lambda>c. Inr (c, c)),
     median_std_norm = (\<lambda>c. c), median_std_score = (\<lambda>r c. Fin r),
     min_fg_pts = 5, min_border = 1, max_border = 2, old_border = True,
     x2y2_interpolation_poly = mean_shift_poly,
     x2y2_interpolation_near = nearest_in_box,
     distance_transform_edt = edt_brute,
     domain_geo2pix = (\<lambda>p. p),
     np_radians = radians, np_cos = cos, np_sin = sin, float64 = (\<lambda>v. v)\<rparr>"

text \<open>
  Two Nansat objects over 12 by 12 images of ones. Pixel and geographic coordinates
  agree on the first; the second is shifted by one pixel in x.
\<close>

definition demo_n1 :: nansat where
  "demo_n1 = \<lparr>band = const_image 12 12, nshape = (12, 12),
     pix2geo = (\<lambda>p. p), geo2pix = (\<lambda>p. p),
     get_corners = ([Fin 0, Fin 0, Fin 12, Fin 12], [Fin 0, Fin 12, Fin 0, Fin 12])\<rparr>"

definition demo_n2 :: nansat where
  "demo_n2 = \<lparr>band = const_image 12 12, nshape = (12, 12),
     pix2geo = (\<lambda>p. (fl_sub (fst p) (Fin 1), snd p)),
     geo2pix = (\<lambda>p. (fl_add (fst p) (Fin 1), snd p)),
     get_corners = ([Fin (-1), Fin (-1), Fin 11, Fin 11], [Fin 0, Fin 12, Fin 0, Fin 12])\<rparr>"

text \<open>
  A strip of one row and five columns with correspondences at columns 1 and 3, which
  move by one pixel in x.
\<close>

definition strip_kw :: kwargs where
  "strip_kw = demo_kw\<lparr>min_fg_pts := 1, min_border := 3 / 2\<rparr>"



text \<open>
  A query grid of one row and two cells over the 12 by 12 images, matched at angle 0 with
  a template of size 3: the cell at (6, 6) is valid, the cell at (1, 1) is too close to
  the image edge. In a second grid both cells are too close to an edge, and the matcher
  raises whenever it is called.
\<close>

definition grid_kw :: kwargs where
  "grid_kw = demo_kw\<lparr>angles := [0], max_border := 1\<rparr>"

definition deaf_kw :: kwargs where
  "deaf_kw = grid_kw\<lparr>template_matcher := (\<lambda>im t. Inl ExternalError)\<rparr>"

definition grid_lonlat :: "fl array2" where
  "grid_lonlat = Array2 2 [[Fin 6, Fin 1]]"

definition edge_lonlat :: "fl array2" where
  "edge_lonlat = Array2 2 [[Fin 1, Fin 11]]"

definition grid_prepared :: prepared where
  "grid_prepared = \<lparr>p_x1_dst = [Fin 6, Fin 1], p_y1_dst = [Fin 6, Fin 1], p_x2fg = [Fin 7, Fin 2],
            p_y2fg = [Fin 6, Fin 1], p_border = [Fin 2, Fin 2], p_gpi = [True, False]\<rparr>"

definition edge_prepared :: prepared where
  "edge_prepared = \<lparr>p_x1_dst = [Fin 1, Fin 11], p_y1_dst = [Fin 1, Fin 11], p_x2fg = [Fin 2, Fin 12],
            p_y2fg = [Fin 1, Fin 11], p_border = [Fin 2, Fin 2], p_gpi = [False, False]\<rparr>"

text \<open>
  One query point at (30, 30) of 40 by 40 images, for a template of size 35 and a margin
  of -15: the point passes the mask, and its template is cut by the image edge.
\<close>

definition wide_n1 :: nansat where
  "wide_n1 = demo_n1\<lparr>band := const_image 40 40, nshape := (40, 40)\<rparr>"

definition wide_n2 :: nansat where
  "wide_n2 = demo_n2\<lparr>band := const_image 40 40, nshape := (40, 40)\<rparr>"

definition wide_lonlat :: "fl array2" where
  "wide_lonlat = Array2 1 [[Fin 30]]"

definition wide_prepared :: prepared where
  "wide_prepared = \<lparr>p_x1_dst = [Fin 30], p_y1_dst = [Fin 30], p_x2fg = [Fin 31],
            p_y2fg = [Fin 30], p_border = [Fin 2], p_gpi = [True]\<rparr>"

text \<open>
  The same point in a query grid of one row and two cells, beside a point at (1, 1) that
  the mask excludes.
\<close>

definition pair_lonlat :: "fl array2" where
  "pair_lonlat = Array2 2 [[Fin 30, Fin 1]]"

definition pair_prepared :: prepared where
  "pair_prepared = \<lparr>p_x1_dst = [Fin 30, Fin 1], p_y1_dst = [Fin 30, Fin 1],
            p_x2fg = [Fin 31, Fin 2], p_y2fg = [Fin 30, Fin 1], p_border = [Fin 2, Fin 2],
            p_gpi = [True, False]\<rparr>"

text \<open>
  The correlation surface of the valid cell, and two 3 by 3 images for the search over the
  angles 0, 90 and -90 with a template of size 2 around the pixel (1, 1): the first image
  has 5 at its top left corner and 9 at the two corners that the quarter turns bring
  there, so the angles 90 and -90 give the same template and the same correlation.
\<close>

definition flat_surface :: ccm where
  "flat_surface = Array2 5 [[Fin (1 / 100), Fin (1 / 100), Fin (1 / 100), Fin (1 / 100), Fin (1 / 100)],
                            [Fin (1 / 100), Fin (1 / 100), Fin (1 / 100), Fin (1 / 100), Fin (1 / 100)],
                            [Fin (1 / 100), Fin (1 / 100), Fin (1 / 100), Fin (1 / 100), Fin (1 / 100)],
                            [Fin (1 / 100), Fin (1 / 100), Fin (1 / 100), Fin (1 / 100), Fin (1 / 100)],
                            [Fin (1 / 100), Fin (1 / 100), Fin (1 / 100), Fin (1 / 100), Fin (1 / 100)]]"

definition demo_img1 :: image where
  "demo_img1 = Array2 3 [[5, 0, 9], [0, 0, 0], [9, 0, 0]]"

definition demo_img2 :: image where
  "demo_img2 = Array2 3 [[1, 2, 1], [1, 10, 1], [1, 1, 1]]"

section \<open>Evaluation lemmas\<close>

lemma upt_small: "[0..<2] = [0, 1]" "[0..<3] = [0, 1, 2]"
  by code_simp+

lemma upt_more: "[0..<1] = [0]" "[0..<5] = [0, 1, 2, 3, 4]"
  by code_simp+

lemma slice_bound_le: "slice_bound i n \<le> n"
  unfolding slice_bound_def by auto

lemma py_slice_replicate:
  "py_slice a b (replicate n x) = replicate (slice_bound b n - slice_bound a n) x"
  using slice_bound_le[of b n] by (simp add: py_slice_def Let_def)

lemma slice2_const_image:
  "slice2 r0 r1 c0 c1 (const_image h w) =
   const_image (slice_bound r1 h - slice_bound r0 h) (slice_bound c1 w - slice_bound c0 w)"
  by (simp add: slice2_def const_image_def py_slice_replicate)

lemma shape_const_image: "shape0 (const_image h w) = h" "shape1 (const_image h w) = w"
  by (simp_all add: shape0_def shape1_def const_image_def)

lemma length_flatten_tabulate2: "length (flatten (tabulate2 shp f)) = fst shp * snd shp"
  by (simp add: flatten_def tabulate2_def length_concat o_def sum_list_triv)

lemma sqrt3_bounds: "17 / 10 < sqrt 3" "sqrt 3 < 87 / 50"
proof -
  show "17 / 10 < sqrt 3" by (rule real_less_rsqrt) (simp add: power2_eq_square)
  show "sqrt 3 < 87 / 50" by (rule real_less_lsqrt) (simp_all add: power2_eq_square)
qed

lemma hwsrot_60: "\<lceil>35 / 2 * \<bar>cos (radians 60)\<bar> + 35 / 2 * \<bar>sin (radians 60)\<bar>\<rceil> = (24::int)"
proof -
  have r: "radians 60 = pi / 3" by (simp add: radians_def)
  have "23 < 35 / 2 * \<bar>1 / 2\<bar> + 35 / 2 * \<bar>sqrt 3 / 2\<bar>"
       "35 / 2 * \<bar>1 / 2\<bar> + 35 / 2 * \<bar>sqrt 3 / 2\<bar> \<le> 24"
    using sqrt3_bounds by (simp add: abs_if, linarith)+
  then show ?thesis unfolding r cos_60 sin_60
    by (intro ceiling_unique) simp_all
qed

lemma hwsrot2_60: "\<lceil>24 * \<bar>cos (radians 60)\<bar> + 24 * \<bar>sin (radians 60)\<bar>\<rceil> = (33::int)"
proof -
  have r: "radians 60 = pi / 3" by (simp add: radians_def)
  have "32 < 24 * \<bar>1 / 2\<bar> + 24 * \<bar>sqrt 3 / 2\<bar>"
       "24 * \<bar>1 / 2\<bar> + 24 * \<bar>sqrt 3 / 2\<bar> \<le> 33"
    using sqrt3_bounds by (simp add: abs_if, linarith)+
  then show ?thesis unfolding r cos_60 sin_60
    by (intro ceiling_unique) simp_all
qed

lemma grt_high_border:
  "get_rotated_template grid_kw (const_image 40 40) (Fin 30) (Fin 30) 35 (Fin 0)
     = Inr (const_image 28 28)"
  apply (simp add: get_rotated_template_def radians_def Let_def grid_kw_def demo_kw_def
      quarter_rotate_def slice2_const_image)
  apply (simp add: trunc_def)
  apply (simp add: slice_bound_def)
  done

lemma rm_high_border:
  "rotate_and_match grid_kw (const_image 40 40) (Fin 30) (Fin 30) 35 image2 (Fin 0)
     = Inr (Tuple6 NaN NaN NaN NaN NaN NaN)"
proof -
  have a: "angles grid_kw = [0]" by (simp add: grid_kw_def demo_kw_def)
  show ?thesis
    by (simp add: rotate_and_match_def a grt_high_border shape_const_image)
qed

lemma grt_near_0:
  "get_rotated_template (demo_kw\<lparr>angles := [0, 60]\<rparr>) (const_image 43 43) (Fin 20) (Fin 20) 35 (Fin 0)
     = Inr (const_image 35 35)"
  apply (simp add: get_rotated_template_def radians_def Let_def demo_kw_def quarter_rotate_def
      slice2_const_image)
  apply (simp add: trunc_def)
  apply (simp add: slice_bound_def)
  done

lemma exact_arithmetic:
  "np_radians (demo_kw\<lparr>angles := as\<rparr>) = radians" "np_cos (demo_kw\<lparr>angles := as\<rparr>) = cos"
  "np_sin (demo_kw\<lparr>angles := as\<rparr>) = sin" "float64 (demo_kw\<lparr>angles := as\<rparr>) = (\<lambda>v. v)"
  by (simp_all add: demo_kw_def)

lemma grt_near_60:
  "get_rotated_template (demo_kw\<lparr>angles := [0, 60]\<rparr>) (const_image 43 43) (Fin 20) (Fin 20) 35 (Fin 60)
     = Inr (const_image 0 0)"
  apply (simp only: get_rotated_template_def fl.case Let_def exact_arithmetic of_int_numeral
      hwsrot_60 hwsrot2_60)
  apply (simp add: demo_kw_def quarter_rotate_def slice2_const_image trunc_def)
  apply (simp add: slice_bound_def)
  done

lemma grt_demo0:
  "get_rotated_template demo_kw demo_img1 (Fin 1) (Fin 1) 2 (Fin 0) = Inr (Array2 2 [[5, 0], [0, 0]])"
  apply (simp add: get_rotated_template_def radians_def Let_def demo_kw_def quarter_rotate_def)
  apply (simp add: trunc_def)
  apply (simp add: slice2_def py_slice_def slice_bound_def demo_img1_def)
  done

lemma grt_demo90:
  "get_rotated_template demo_kw demo_img1 (Fin 1) (Fin 1) 2 (Fin 90) = Inr (Array2 2 [[9, 0], [0, 0]])"
  apply (simp add: get_rotated_template_def radians_def Let_def demo_kw_def quarter_rotate_def)
  apply (simp add: trunc_def)
  apply (simp add: slice2_def py_slice_def slice_bound_def demo_img1_def rot90_def upt_small)
  done

lemma grt_demo270:
  "get_rotated_template demo_kw demo_img1 (Fin 1) (Fin 1) 2 (Fin (- 90)) = Inr (Array2 2 [[9, 0], [0, 0]])"
  apply (simp add: get_rotated_template_def radians_def Let_def demo_kw_def quarter_rotate_def)
  apply (simp add: trunc_def)
  apply (simp add: slice2_def py_slice_def slice_bound_def demo_img1_def rot90_def upt_small)
  done

lemma match_demo:
  "template_matcher demo_kw demo_img2 (Array2 2 [[p, 0], [0, 0]]) =
     Inr (Array2 2 [[Fin (real p / 100), Fin (real (2 * p) / 100)],
                    [Fin (real p / 100), Fin (real (10 * p) / 100)]])"
  by (simp add: demo_kw_def corner_matcher_def shape0_def shape1_def demo_img2_def tabulate2_def
      upt_small)

lemma angles_demo: "angles demo_kw = [0, 90, - 90]"
  by (simp add: demo_kw_def)

lemma hessian_demo: "get_hessian demo_kw c = Inr (hypot2 c c)"
  by (simp add: get_hessian_def demo_kw_def Let_def)

lemma rm_demo:
  "rotate_and_match demo_kw demo_img1 (Fin 1) (Fin 1) 2 demo_img2 (Fin 0) =
     Inr (Tuple7 (Fin (1/2)) (Fin (1/2)) (Fin 90) (Fin (9/10)) (Fin (sqrt (81/50)))
            (Array2 2 [[Fin (9/100), Fin (18/100)], [Fin (9/100), Fin (90/100)]])
            (Array2 2 [[9, 0], [0, 0]]))"
  apply (simp add: rotate_and_match_def angles_demo grt_demo0 grt_demo90 grt_demo270
      shape0_def shape1_def match_demo np_max_def np_argmax_def Let_def)
  apply (simp add: rm_finish_def hessian_demo hypot2_def at2_def shape0_def shape1_def
      demo_img2_def)
  apply (simp add: demo_kw_def)
  done

lemma corr_max_demo:
  "corr_max demo_kw demo_img1 (Fin 1) (Fin 1) 2 demo_img2 (Fin 0) 0 = Fin (1/2)"
  "corr_max demo_kw demo_img1 (Fin 1) (Fin 1) 2 demo_img2 (Fin 0) 90 = Fin (9/10)"
  "corr_max demo_kw demo_img1 (Fin 1) (Fin 1) 2 demo_img2 (Fin 0) (- 90) = Fin (9/10)"
  by (simp_all add: corr_max_def grt_demo0 grt_demo90 grt_demo270 match_demo np_max_def)

section \<open>The angle loop of rotate\_and\_match\<close>

lemma np_max_argmax_ok:
  "flatten res \<noteq> [] \<Longrightarrow> \<exists>m ij. np_max res = Inr m \<and> np_argmax res = Inr ij"
  by (cases "concat (rows res)") (simp_all add: flatten_def np_max_def np_argmax_def Let_def)

lemma rm_loop_undersized:
  assumes "k < length as"
    and "undersized kw img1 x y img_size alpha0 (as ! k)"
    and "\<forall>j<k. undersized kw img1 x y img_size alpha0 (as ! j)
              \<or> iter_ok kw img1 x y img_size image2 alpha0 (as ! j)"
  shows "rm_loop kw img1 x y img_size image2 alpha0 as bo lt = Inr (Tuple6 NaN NaN NaN NaN NaN NaN)"
  using assms
proof (induction as arbitrary: k bo lt)
  case Nil
  then show ?case by simp
next
  case (Cons ang rest)
  show ?case
  proof (cases "undersized kw img1 x y img_size alpha0 ang")
    case True
    then show ?thesis
      by (auto simp: undersized_def split: sum.splits)
  next
    case False
    then have k0: "k \<noteq> 0" using Cons.prems(2) by (cases k) auto
    then obtain k' where k': "k = Suc k'" by (cases k) auto
    have ok: "iter_ok kw img1 x y img_size image2 alpha0 ang"
      using Cons.prems(3) False k' by (auto dest: spec[of _ 0])
    then obtain t res where t: "get_rotated_template kw img1 y x img_size (fl_sub (Fin ang) alpha0) = Inr t"
      and res: "template_matcher kw image2 t = Inr res" and ne: "flatten res \<noteq> []"
      by (auto simp: iter_ok_def split: sum.splits)
    from np_max_argmax_ok[OF ne] obtain m ij where m: "np_max res = Inr m" "np_argmax res = Inr ij"
      by blast
    have full: "\<not> (int (shape0 t) < img_size \<or> int (shape1 t) < img_size)"
      using False t by (simp add: undersized_def)
    have rest: "rm_loop kw img1 x y img_size image2 alpha0 rest bo' lt' = Inr (Tuple6 NaN NaN NaN NaN NaN NaN)"
      for bo' lt'
    proof (rule Cons.IH[of k'])
      show "k' < length rest" using Cons.prems(1) k' by simp
      show "undersized kw img1 x y img_size alpha0 (rest ! k')" using Cons.prems(2) k' by simp
      show "\<forall>j<k'. undersized kw img1 x y img_size alpha0 (rest ! j)
              \<or> iter_ok kw img1 x y img_size image2 alpha0 (rest ! j)"
        using Cons.prems(3) k' by (auto dest: spec[of _ "Suc _"])
    qed
    show ?thesis using t res m full rest by simp
  qed
qed

lemma rm_finish_Tuple7:
  "rm_finish kw image2 bo lt = Inr (Tuple7 dx dy a r h res tm) \<Longrightarrow>
   \<exists>b. bo = Some b \<and> a = Fin (best_a b)"
  by (auto simp: rm_finish_def Let_def split: option.splits sum.splits)

lemma not_improves:
  "\<not> improves m bo \<Longrightarrow> m = Fin v \<Longrightarrow> \<exists>b. bo = Some b \<and> v \<le> best_r b"
  by (cases bo) auto

lemma rm_loop_best:
  assumes "rm_loop kw img1 x y img_size image2 alpha0 as bo lt = Inr (Tuple7 dx dy a r h res tm)"
  shows "(\<exists>b. bo = Some b \<and> a = Fin (best_a b) \<and>
            (\<forall>j<length as. \<forall>m'. corr_max kw img1 x y img_size image2 alpha0 (as ! j) = Fin m'
                 \<longrightarrow> m' \<le> best_r b))
       \<or> (\<exists>k<length as. \<exists>m. a = Fin (as ! k) \<and>
            corr_max kw img1 x y img_size image2 alpha0 (as ! k) = Fin m \<and>
            (\<forall>b. bo = Some b \<longrightarrow> best_r b < m) \<and>
            (\<forall>j<length as. \<forall>m'. corr_max kw img1 x y img_size image2 alpha0 (as ! j) = Fin m'
                 \<longrightarrow> m' \<le> m) \<and>
            (\<forall>j<k. corr_max kw img1 x y img_size image2 alpha0 (as ! j) \<noteq> Fin m))"
  using assms
proof (induction as arbitrary: bo lt)
  case Nil
  then show ?case using rm_finish_Tuple7 by fastforce
next
  case (Cons ang rest)
  let ?cm = "corr_max kw img1 x y img_size image2 alpha0"
  from Cons.prems obtain t result ij m where
    t: "get_rotated_template kw img1 y x img_size (fl_sub (Fin ang) alpha0) = Inr t"
    and mt: "template_matcher kw image2 t = Inr result"
    and ij: "np_argmax result = Inr ij" and m: "np_max result = Inr m"
    and rec: "rm_loop kw img1 x y img_size image2 alpha0 rest
          (if improves m bo
           then Some \<lparr>best_r = the_fin m, best_a = ang, best_result = result,
                      best_template = t, best_ij = ij\<rparr>
           else bo) (Some t) = Inr (Tuple7 dx dy a r h res tm)"
    by (auto split: sum.splits if_splits)
  have cm: "?cm ang = m" using t mt m by (simp add: corr_max_def)
  show ?case
  proof (cases "improves m bo")
    case True
    then obtain v where v: "m = Fin v" by (cases m) auto
    have bov: "\<forall>b. bo = Some b \<longrightarrow> best_r b < v" using True v by auto
    let ?nb = "\<lparr>best_r = the_fin m, best_a = ang, best_result = result,
                      best_template = t, best_ij = ij\<rparr>"
    from Cons.IH[OF rec[unfolded if_P[OF True]]]
    consider (old) "a = Fin ang" "\<forall>j<length rest. \<forall>m'. ?cm (rest ! j) = Fin m' \<longrightarrow> m' \<le> v"
      | (new) k m2 where "k < length rest" "a = Fin (rest ! k)" "?cm (rest ! k) = Fin m2" "v < m2"
          "\<forall>j<length rest. \<forall>m'. ?cm (rest ! j) = Fin m' \<longrightarrow> m' \<le> m2"
          "\<forall>j<k. ?cm (rest ! j) \<noteq> Fin m2"
      using v by auto
    then show ?thesis
    proof cases
      case old
      have "\<forall>j<length (ang # rest). \<forall>m'. ?cm ((ang # rest) ! j) = Fin m' \<longrightarrow> m' \<le> v"
        using old(2) cm v by (auto simp: nth_Cons split: nat.splits)
      then have "0 < length (ang # rest) \<and> a = Fin ((ang # rest) ! 0) \<and> ?cm ((ang # rest) ! 0) = Fin v \<and>
            (\<forall>b. bo = Some b \<longrightarrow> best_r b < v) \<and>
            (\<forall>j<length (ang # rest). \<forall>m'. ?cm ((ang # rest) ! j) = Fin m' \<longrightarrow> m' \<le> v) \<and>
            (\<forall>j<0. ?cm ((ang # rest) ! j) \<noteq> Fin v)"
        using old(1) cm v bov by simp
      then show ?thesis by blast
    next
      case new
      have a1: "\<forall>j<length (ang # rest). \<forall>m'. ?cm ((ang # rest) ! j) = Fin m' \<longrightarrow> m' \<le> m2"
        using new(4,5) cm v by (auto simp: nth_Cons split: nat.splits)
      have a2: "\<forall>j<Suc k. ?cm ((ang # rest) ! j) \<noteq> Fin m2"
        using new(4,6) cm v by (auto simp: nth_Cons split: nat.splits)
      have a3: "\<forall>b. bo = Some b \<longrightarrow> best_r b < m2" using bov new(4) by auto
      have "Suc k < length (ang # rest) \<and> a = Fin ((ang # rest) ! Suc k) \<and> ?cm ((ang # rest) ! Suc k) = Fin m2"
        using new(1,2,3) by simp
      with a1 a2 a3 show ?thesis by blast
    qed
  next
    case False
    from Cons.IH[OF rec[unfolded if_not_P[OF False]]]
    consider (old) b where "bo = Some b" "a = Fin (best_a b)"
          "\<forall>j<length rest. \<forall>m'. ?cm (rest ! j) = Fin m' \<longrightarrow> m' \<le> best_r b"
      | (new) k m2 where "k < length rest" "a = Fin (rest ! k)" "?cm (rest ! k) = Fin m2"
          "\<forall>b. bo = Some b \<longrightarrow> best_r b < m2"
          "\<forall>j<length rest. \<forall>m'. ?cm (rest ! j) = Fin m' \<longrightarrow> m' \<le> m2"
          "\<forall>j<k. ?cm (rest ! j) \<noteq> Fin m2"
      by auto
    then show ?thesis
    proof cases
      case old
      have "\<forall>j<length (ang # rest). \<forall>m'. ?cm ((ang # rest) ! j) = Fin m' \<longrightarrow> m' \<le> best_r b"
        using old(1,3) cm not_improves[OF False] by (auto simp: nth_Cons split: nat.splits)
      with old(1,2) show ?thesis by blast
    next
      case new
      have head: "\<forall>v. m = Fin v \<longrightarrow> v < m2"
        using not_improves[OF False] new(4) by fastforce
      have a1: "\<forall>j<length (ang # rest). \<forall>m'. ?cm ((ang # rest) ! j) = Fin m' \<longrightarrow> m' \<le> m2"
        using new(5) cm head by (auto simp: nth_Cons split: nat.splits)
      have a2: "\<forall>j<Suc k. ?cm ((ang # rest) ! j) \<noteq> Fin m2"
        using new(6) cm head by (auto simp: nth_Cons split: nat.splits)
      have "Suc k < length (ang # rest) \<and> a = Fin ((ang # rest) ! Suc k) \<and> ?cm ((ang # rest) ! Suc k) = Fin m2"
        using new(1,2,3) by simp
      with a1 a2 new(4) show ?thesis by blast
    qed
  qed
qed

section \<open>Undersized templates and ties\<close>

text \<open>
  Claim C3. If the rotated template of some candidate angle is smaller than the template
  size in a dimension, \<open>rotate_and_match\<close> returns the tuple of NaN at once, whatever the
  templates of the other angles are, provided the iterations of the angles before it
  raise no exception.
\<close>

theorem rotate_and_match_fails_on_undersized_template:
  assumes "k < length (angles kw)"
    and "undersized kw img1 x y img_size alpha0 (angles kw ! k)"
    and "\<forall>j<k. undersized kw img1 x y img_size alpha0 (angles kw ! j)
              \<or> iter_ok kw img1 x y img_size image2 alpha0 (angles kw ! j)"
  shows "rotate_and_match kw img1 x y img_size image2 alpha0 = Inr (Tuple6 NaN NaN NaN NaN NaN NaN)"
  unfolding rotate_and_match_def using assms by (rule rm_loop_undersized)

theorem rotate_and_match_fails_on_undersized_template_witness:
  "\<not> undersized (demo_kw\<lparr>angles := [0, 60]\<rparr>) (const_image 43 43) (Fin 20) (Fin 20) 35 (Fin 0) 0
   \<and> undersized (demo_kw\<lparr>angles := [0, 60]\<rparr>) (const_image 43 43) (Fin 20) (Fin 20) 35 (Fin 0) 60
   \<and> rotate_and_match (demo_kw\<lparr>angles := [0, 60]\<rparr>) (const_image 43 43) (Fin 20) (Fin 20) 35
        (const_image 40 40) (Fin 0) = Inr (Tuple6 NaN NaN NaN NaN NaN NaN)"
proof -
  let ?kw = "demo_kw\<lparr>angles := [0, 60]\<rparr>"
  have full: "\<not> undersized ?kw (const_image 43 43) (Fin 20) (Fin 20) 35 (Fin 0) 0"
    by (simp add: undersized_def grt_near_0 shape_const_image)
  have small: "undersized ?kw (const_image 43 43) (Fin 20) (Fin 20) 35 (Fin 0) 60"
    by (simp add: undersized_def grt_near_60 shape_const_image)
  have "length (flatten (tabulate2 (6, 6) f)) = 36" for f :: "nat \<times> nat \<Rightarrow> fl"
    by (simp add: length_flatten_tabulate2)
  then have ne: "flatten (tabulate2 (6, 6) f) \<noteq> []" for f :: "nat \<times> nat \<Rightarrow> fl"
    by (metis length_0_conv zero_neq_numeral)
  have ok: "iter_ok ?kw (const_image 43 43) (Fin 20) (Fin 20) 35 (const_image 40 40) (Fin 0) 0"
    by (simp add: iter_ok_def grt_near_0) (simp add: demo_kw_def corner_matcher_def shape_const_image ne)
  have "rotate_and_match ?kw (const_image 43 43) (Fin 20) (Fin 20) 35 (const_image 40 40) (Fin 0)
          = Inr (Tuple6 NaN NaN NaN NaN NaN NaN)"
  proof (rule rotate_and_match_fails_on_undersized_template[of 1])
    show "1 < length (angles ?kw)" by simp
    show "undersized ?kw (const_image 43 43) (Fin 20) (Fin 20) 35 (Fin 0) (angles ?kw ! 1)"
      using small by simp
    show "\<forall>j<1. undersized ?kw (const_image 43 43) (Fin 20) (Fin 20) 35 (Fin 0) (angles ?kw ! j)
              \<or> iter_ok ?kw (const_image 43 43) (Fin 20) (Fin 20) 35 (const_image 40 40) (Fin 0)
                   (angles ?kw ! j)"
      using ok by simp
  qed
  with full small show ?thesis by blast
qed

text \<open>
  Claim C7. When \<open>rotate_and_match\<close> returns its seven values, the angle it reports is a
  candidate angle whose maximum correlation is the greatest of all candidates, and no
  angle before it in the sequence has that same maximum: among the angles that attain the
  greatest correlation the first one is reported.
\<close>

theorem rotate_and_match_reports_first_best_angle:
  assumes "rotate_and_match kw img1 x y img_size image2 alpha0 = Inr (Tuple7 dx dy a r h res tm)"
  shows "\<exists>k<length (angles kw). \<exists>m.
           a = Fin (angles kw ! k) \<and>
           corr_max kw img1 x y img_size image2 alpha0 (angles kw ! k) = Fin m \<and>
           (\<forall>j<length (angles kw). \<forall>m'.
               corr_max kw img1 x y img_size image2 alpha0 (angles kw ! j) = Fin m' \<longrightarrow> m' \<le> m) \<and>
           (\<forall>j<k. corr_max kw img1 x y img_size image2 alpha0 (angles kw ! j) \<noteq> Fin m)"
  using rm_loop_best[OF assms[unfolded rotate_and_match_def]] by simp

theorem rotate_and_match_reports_first_best_angle_witness:
  "angles demo_kw = [0, 90, - 90]
   \<and> rotate_and_match demo_kw demo_img1 (Fin 1) (Fin 1) 2 demo_img2 (Fin 0) =
     Inr (Tuple7 (Fin (1/2)) (Fin (1/2)) (Fin 90) (Fin (9/10)) (Fin (sqrt (81/50)))
            (Array2 2 [[Fin (9/100), Fin (18/100)], [Fin (9/100), Fin (90/100)]])
            (Array2 2 [[9, 0], [0, 0]]))
   \<and> corr_max demo_kw demo_img1 (Fin 1) (Fin 1) 2 demo_img2 (Fin 0) 0 = Fin (1/2)
   \<and> corr_max demo_kw demo_img1 (Fin 1) (Fin 1) 2 demo_img2 (Fin 0) 90 = Fin (9/10)
   \<and> corr_max demo_kw demo_img1 (Fin 1) (Fin 1) 2 demo_img2 (Fin 0) (- 90) = Fin (9/10)
   \<and> (\<exists>k<length (angles demo_kw). \<exists>m.
           Fin 90 = Fin (angles demo_kw ! k) \<and>
           corr_max demo_kw demo_img1 (Fin 1) (Fin 1) 2 demo_img2 (Fin 0) (angles demo_kw ! k) = Fin m \<and>
           (\<forall>j<length (angles demo_kw). \<forall>m'.
               corr_max demo_kw demo_img1 (Fin 1) (Fin 1) 2 demo_img2 (Fin 0) (angles demo_kw ! j) = Fin m'
                 \<longrightarrow> m' \<le> m) \<and>
           (\<forall>j<k. corr_max demo_kw demo_img1 (Fin 1) (Fin 1) 2 demo_img2 (Fin 0) (angles demo_kw ! j)
                     \<noteq> Fin m))"
  using angles_demo rm_demo corr_max_demo rotate_and_match_reports_first_best_angle[OF rm_demo]
  by (intro conjI)

section \<open>The first guess\<close>

lemma sequence_Inr: "sequence rs = Inr vs \<Longrightarrow> rs = map Inr vs"
proof (induction rs arbitrary: vs)
  case Nil
  then show ?case by simp
next
  case (Cons r rs)
  then show ?case by (cases r) (auto split: sum.splits)
qed

lemma sequence_map_Inr:
  assumes "sequence (map f xs) = Inr vs"
  shows "length vs = length xs" and "\<And>i. i < length xs \<Longrightarrow> f (xs ! i) = Inr (vs ! i)"
proof -
  from sequence_Inr[OF assms] have eq: "map f xs = map Inr vs" .
  then show len: "length vs = length xs" by (metis length_map)
  fix i assume "i < length xs"
  then show "f (xs ! i) = Inr (vs ! i)"
    using eq len by (metis nth_map)
qed

lemma gd_strip:
  "get_distance_to_nearest_keypoint strip_kw [1, 3] [0, 0] (1, 5) = Inr (Array2 5 [[1, 0, 1, 0, 1]])"
  apply (simp add: get_distance_to_nearest_keypoint_def index_pair_def np_index_def astype_uint16_def
      trunc_def tabulate2_def upt_more Let_def)
  apply (simp add: strip_kw_def demo_kw_def edt_brute_def zero_cells_def tabulate2_def upt_more)
  done

lemma bd_strip:
  "border_distance strip_kw [Fin (27/10), Fin (9/2), Fin 7] [Fin 0, Fin 0, Fin 0] (1, 5) [1, 3] [0, 0]
     = Inr [Fin 1, Fin 1, Fin 2]"
  unfolding border_distance_def gd_strip
  apply (simp add: in_bounds_def index_pair_def np_index_def shape0_def shape1_def trunc_def at2_def)
  apply (simp add: strip_kw_def demo_kw_def)
  done


lemma strip_kw_fields:
  "min_fg_pts strip_kw = 1" "min_border strip_kw = 3 / 2" "max_border strip_kw = 2"
  "old_border strip_kw = True" "x2y2_interpolation_poly strip_kw = mean_shift_poly"
  "x2y2_interpolation_near strip_kw = nearest_in_box"
  by (simp_all add: strip_kw_def demo_kw_def)





lemma prepare_first_guess_fallback_eq:
  assumes "int (length x1) \<le> min_fg_pts kw" and "length x1_dst = length y1_dst"
  shows "prepare_first_guess kw x1_dst y1_dst n1 x1 y1 n2 x2 y2 img_size =
           Inr (map (\<lambda>p. fst (geo2pix n2 (pix2geo n1 p))) (zip x1_dst y1_dst),
                map (\<lambda>p. snd (geo2pix n2 (pix2geo n1 p))) (zip x1_dst y1_dst),
                replicate (length x1_dst) (Fin (2 * max_border kw)))"
  using assms by (simp add: prepare_first_guess_def Let_def o_def mult.commute)

text \<open>
  Claim C4. With no more than \<open>min_fg_pts\<close> correspondences \<open>prepare_first_guess\<close>
  returns, for every query point, the border \<open>2 * max_border\<close> and as first guess the
  query point carried from image 1 to geographic coordinates and from there to image 2.
  Neither interpolator takes part.
\<close>

theorem prepare_first_guess_fallback:
  assumes "int (length x1) \<le> min_fg_pts kw" and "length x1_dst = length y1_dst"
  shows "\<exists>x2fg y2fg border.
           prepare_first_guess kw x1_dst y1_dst n1 x1 y1 n2 x2 y2 img_size = Inr (x2fg, y2fg, border) \<and>
           length x2fg = length x1_dst \<and> length y2fg = length x1_dst \<and>
           length border = length x1_dst \<and>
           (\<forall>i<length x1_dst.
              border ! i = Fin (2 * max_border kw) \<and>
              (x2fg ! i, y2fg ! i) = geo2pix n2 (pix2geo n1 (x1_dst ! i, y1_dst ! i)))"
  unfolding prepare_first_guess_fallback_eq[OF assms] using assms(2) by simp

theorem prepare_first_guess_fallback_witness:
  "int (length [1, 3 :: real]) \<le> min_fg_pts demo_kw \<and>
   (\<exists>x2fg y2fg border.
      prepare_first_guess demo_kw [Fin 6, Fin 1] [Fin 6, Fin 1] demo_n1 [1, 3] [0, 0]
         demo_n2 [2, 4] [0, 0] 3 = Inr (x2fg, y2fg, border) \<and>
      length x2fg = length [Fin 6, Fin 1] \<and> length y2fg = length [Fin 6, Fin 1] \<and>
      length border = length [Fin 6, Fin 1] \<and>
      (\<forall>i<length [Fin 6, Fin 1].
         border ! i = Fin (2 * max_border demo_kw) \<and>
         (x2fg ! i, y2fg ! i) = geo2pix demo_n2 (pix2geo demo_n1 ([Fin 6, Fin 1] ! i, [Fin 6, Fin 1] ! i))))"
proof -
  have h: "int (length [1, 3 :: real]) \<le> min_fg_pts demo_kw" by (simp add: demo_kw_def)
  have l: "length [Fin 6, Fin 1] = length [Fin 6, Fin 1]" by simp
  from h prepare_first_guess_fallback[OF h l] show ?thesis by (rule conjI)
qed





lemma astype_int16_in_range:
  assumes "0 \<le> v" and "v < real n" and "n \<le> 32768"
  shows "astype_int16 (Fin v) = trunc v" and "0 \<le> trunc v" and "trunc v < int n"
proof -
  have t: "trunc v = \<lfloor>v\<rfloor>" using assms(1) by (simp add: trunc_def)
  show nonneg: "0 \<le> trunc v" using assms(1) t by simp
  show lt: "trunc v < int n" using assms(2) t by (simp add: floor_less_iff)
  have "trunc v < 32768" using lt assms(3) by linarith
  then show "astype_int16 (Fin v) = trunc v"
    using nonneg by (simp add: sint_sbintrunc' signed_take_bit_int_eq_self)
qed

lemma np_index_nonneg:
  assumes "np_index i n = Inr k" and "0 \<le> i"
  shows "k = nat i" and "i < int n"
  using assms by (auto simp: np_index_def split: if_splits)

lemma at2_Inr: "at2 A rc = Inr d \<Longrightarrow> d = rows A ! fst rc ! snd rc \<and> fst rc < length (rows A) \<and> snd rc < length (rows A ! fst rc)"
  by (auto simp: at2_def split: if_splits)

text \<open>
  Claim C9, as amended. Under the distance policy, on an image 1 of at most 32768 rows and
  columns, the border before the clamp is, for a query point inside the image, the
  distance-transform value at its pixel location truncated toward zero, and
  \<open>max_border\<close> for a query point outside.
\<close>

theorem border_distance_samples_truncated_pixel:
  assumes ret: "border_distance kw x1_dst y1_dst shp x1 y1 = Inr b0"
    and img: "get_distance_to_nearest_keypoint kw x1 y1 shp = Inr border_img"
    and small: "fst shp \<le> 32768" "snd shp \<le> 32768"
    and len: "length x1_dst = length y1_dst"
  shows "length b0 = length x1_dst \<and>
         (\<forall>i<length x1_dst.
            if in_bounds shp (x1_dst ! i) (y1_dst ! i)
            then b0 ! i = Fin (rows border_img ! nat (trunc (the_fin (y1_dst ! i)))
                                               ! nat (trunc (the_fin (x1_dst ! i))))
                 \<and> nat (trunc (the_fin (y1_dst ! i))) < shape0 border_img
            else b0 ! i = Fin (max_border kw))"
proof -
  let ?f = "\<lambda>(x, y).
              if in_bounds shp x y
              then (case index_pair (shape0 border_img, shape1 border_img)
                           (astype_int16 y, astype_int16 x) of
                      Inl e \<Rightarrow> Inl e
                    | Inr rc \<Rightarrow> (case at2 border_img rc of Inl e \<Rightarrow> Inl e
                                 | Inr d \<Rightarrow> Inr (Fin d)))
              else Inr (Fin (max_border kw))"
  from ret img have seq: "sequence (map ?f (zip x1_dst y1_dst)) = Inr b0"
    by (simp add: border_distance_def)
  note sm = sequence_map_Inr[OF seq]
  have l: "length b0 = length x1_dst" using sm(1) len by simp
  have "if in_bounds shp (x1_dst ! i) (y1_dst ! i)
            then b0 ! i = Fin (rows border_img ! nat (trunc (the_fin (y1_dst ! i)))
                                               ! nat (trunc (the_fin (x1_dst ! i))))
                 \<and> nat (trunc (the_fin (y1_dst ! i))) < shape0 border_img
            else b0 ! i = Fin (max_border kw)" if i: "i < length x1_dst" for i
  proof -
    from i len have iz: "i < length (zip x1_dst y1_dst)" by simp
    from sm(2)[OF iz] i len have fi: "?f (x1_dst ! i, y1_dst ! i) = Inr (b0 ! i)" by simp
    show ?thesis
    proof (cases "in_bounds shp (x1_dst ! i) (y1_dst ! i)")
      case False
      with fi show ?thesis by simp
    next
      case True
      then obtain xv yv where xy: "x1_dst ! i = Fin xv" "y1_dst ! i = Fin yv"
        and xb: "0 \<le> xv" "xv < real (snd shp)" and yb: "0 \<le> yv" "yv < real (fst shp)"
        by (cases "x1_dst ! i"; cases "y1_dst ! i") (auto simp: in_bounds_def)
      note ax = astype_int16_in_range[OF xb small(2)]
      note ay = astype_int16_in_range[OF yb small(1)]
      from fi True xy ax(1) ay(1) obtain rc d where
        ip: "index_pair (shape0 border_img, shape1 border_img) (trunc yv, trunc xv) = Inr rc"
        and at: "at2 border_img rc = Inr d" and bd: "b0 ! i = Fin d"
        by (auto split: sum.splits)
      from ip obtain r c where r: "np_index (trunc yv) (shape0 border_img) = Inr r"
        and c: "np_index (trunc xv) (shape1 border_img) = Inr c" and rc: "rc = (r, c)"
        by (auto simp: index_pair_def split: sum.splits)
      from np_index_nonneg[OF r ay(2)] np_index_nonneg[OF c ax(2)]
      have "r = nat (trunc yv)" "c = nat (trunc xv)" "trunc yv < int (shape0 border_img)" by auto
      with at2_Inr[OF at] rc bd ay(2) True xy show ?thesis by auto
    qed
  qed
  with l show ?thesis by blast
qed

theorem border_distance_samples_truncated_pixel_witness:
  "border_distance strip_kw [Fin (27/10), Fin (9/2), Fin 7] [Fin 0, Fin 0, Fin 0] (1, 5) [1, 3] [0, 0]
     = Inr [Fin 1, Fin 1, Fin 2] \<and>
   in_bounds (1, 5) (Fin (27/10)) (Fin 0) \<and>
   Fin 1 = Fin (rows (Array2 5 [[1, 0, 1, 0, 1 :: real]]) ! nat (trunc 0) ! nat (trunc (27/10))) \<and>
   \<not> in_bounds (1, 5) (Fin 7) (Fin 0) \<and>
   Fin 2 = Fin (max_border strip_kw)"
proof -
  have small: "fst (1 :: nat, 5 :: nat) \<le> 32768" "snd (1 :: nat, 5 :: nat) \<le> 32768"
    and len: "length [Fin (27/10), Fin (9/2), Fin 7] = length [Fin 0, Fin 0, Fin 0]"
    by simp_all
  note all = border_distance_samples_truncated_pixel[OF bd_strip gd_strip small len, THEN conjunct2]
  have inb: "in_bounds (1, 5) (Fin (27/10)) (Fin 0)" "\<not> in_bounds (1, 5) (Fin 7) (Fin 0)"
    by (simp_all add: in_bounds_def)
  from all[rule_format, of 0] inb(1)
  have a: "Fin 1 = Fin (rows (Array2 5 [[1, 0, 1, 0, 1 :: real]]) ! nat (trunc 0) ! nat (trunc (27/10)))"
    by simp
  from all[rule_format, of 2] inb(2)
  have b: "Fin 2 = Fin (max_border strip_kw)"
    by simp
  from bd_strip inb a b show ?thesis by blast
qed

text \<open>
  Claim C9 as stated fails: the query point at x = 2.7 of the strip gets the distance at
  column 2, which is 1, and not the distance at the rounded column 3, which is 0.
\<close>

theorem border_distance_not_at_rounded_pixel:
  "border_distance strip_kw [Fin (27/10), Fin (9/2), Fin 7] [Fin 0, Fin 0, Fin 0] (1, 5) [1, 3] [0, 0]
     = Inr [Fin 1, Fin 1, Fin 2]
   \<and> get_distance_to_nearest_keypoint strip_kw [1, 3] [0, 0] (1, 5) = Inr (Array2 5 [[1, 0, 1, 0, 1]])
   \<and> border_as_claimed (Array2 5 [[1, 0, 1, 0, 1]]) (max_border strip_kw) (1, 5)
        [Fin (27/10), Fin (9/2), Fin 7] [Fin 0, Fin 0, Fin 0] = [Fin 0, Fin 1, Fin 2]"
proof -
  have "border_as_claimed (Array2 5 [[1, 0, 1, 0, 1]]) (max_border strip_kw) (1, 5)
        [Fin (27/10), Fin (9/2), Fin 7] [Fin 0, Fin 0, Fin 0] = [Fin 0, Fin 1, Fin 2]"
    by (simp add: border_as_claimed_def in_bounds_def py_round_def strip_kw_fields)
  with bd_strip gd_strip show ?thesis by simp
qed

section \<open>The mask and the result grids\<close>

lemma valid_point_iff:
  "valid_point hws margin shp1 shp2 x2 y2 b x1 y1
     = padded_windows_inside hws margin shp1 shp2 (x2, y2, b, x1, y1)"
proof (cases x2; cases y2; cases b; cases x1; cases y1)
  fix a c d e f
  assume "x2 = Fin a" "y2 = Fin c" "b = Fin d" "x1 = Fin e" "y1 = Fin f"
  then show ?thesis
    by (simp add: valid_point_def Let_def) argo
qed (simp_all add: valid_point_def Let_def)

lemma boolean_index_map:
  "boolean_index (map P zs) (map f zs) = map f (filter P zs)"
  by (induction zs) (simp_all add: boolean_index_def)

lemma count_true_map: "count_true (map P zs) = length (filter P zs)"
  by (induction zs) (simp_all add: count_true_def)

lemma border_distance_length:
  "border_distance kw x1_dst y1_dst shp x1 y1 = Inr bs \<Longrightarrow> length bs = length (zip x1_dst y1_dst)"
  by (auto simp: border_distance_def split: sum.splits dest: sequence_map_Inr(1))

lemma prepare_first_guess_lengths:
  assumes "prepare_first_guess kw x1_dst y1_dst n1 x1 y1 n2 x2 y2 img_size = Inr (x2fg, y2fg, border)"
  shows "length x1_dst = length y1_dst \<and> length x2fg = length x1_dst \<and> length y2fg = length x1_dst \<and> length border = length x1_dst"
proof (cases "min_fg_pts kw < int (length x1)")
  case False
  with assms show ?thesis
    by (auto simp: prepare_first_guess_def Let_def split: if_splits)
next
  case True
  with assms have len: "length x1_dst = length y1_dst"
    by (auto simp: prepare_first_guess_def split: if_splits)
  from assms True obtain border0 where
    b0: "(if old_border kw then border_distance kw x1_dst y1_dst (nshape n1) x1 y1
          else Inr (border_error kw x1_dst y1_dst x1 y1 x2 y2)) = Inr border0"
    and r: "x2fg = map (\<lambda>(f, p). if isnan (fst f) then fst p else fst f)
                 (zip (map (x2y2_interpolation_near kw x1 y1 (map Fin x2) (map Fin y2)) (zip x1_dst y1_dst))
                      (map (x2y2_interpolation_poly kw x1 y1 x2 y2) (zip x1_dst y1_dst)))"
       "y2fg = map (\<lambda>(f, p). if isnan (snd f) then snd p else snd f)
                 (zip (map (x2y2_interpolation_near kw x1 y1 (map Fin x2) (map Fin y2)) (zip x1_dst y1_dst))
                      (map (x2y2_interpolation_poly kw x1 y1 x2 y2) (zip x1_dst y1_dst)))"
       "border = map (\<lambda>(f, b). clamp_border (min_border kw) (max_border kw) (snd f) b)
                     (zip (map (x2y2_interpolation_near kw x1 y1 (map Fin x2) (map Fin y2)) (zip x1_dst y1_dst)) border0)"
    by (auto simp: prepare_first_guess_def Let_def split: if_splits sum.splits)
  have "length border0 = length (zip x1_dst y1_dst)"
  proof (cases "old_border kw")
    case True
    with b0 show ?thesis by (simp add: border_distance_length)
  next
    case False
    with b0 show ?thesis by (auto simp: border_error_def)
  qed
  with r len show ?thesis by simp
qed

lemma zip5_components:
  assumes "length a = n" "length b = n" "length c = n" "length d = n" "length e = n"
  shows "a = map (\<lambda>(a, b, c, d, e). a) (zip a (zip b (zip c (zip d e))))"
    "b = map (\<lambda>(a, b, c, d, e). b) (zip a (zip b (zip c (zip d e))))"
    "c = map (\<lambda>(a, b, c, d, e). c) (zip a (zip b (zip c (zip d e))))"
    "d = map (\<lambda>(a, b, c, d, e). d) (zip a (zip b (zip c (zip d e))))"
    "e = map (\<lambda>(a, b, c, d, e). e) (zip a (zip b (zip c (zip d e))))"
  using assms by (auto simp: list_eq_iff_nth_eq)

lemma zip5_of_maps:
  "zip (map (\<lambda>(a, b, c, d, e). a) zs) (zip (map (\<lambda>(a, b, c, d, e). b) zs)
     (zip (map (\<lambda>(a, b, c, d, e). c) zs) (zip (map (\<lambda>(a, b, c, d, e). d) zs)
       (map (\<lambda>(a, b, c, d, e). e) zs)))) = zs"
  by (induction zs) auto

lemma prepare_Inr:
  assumes "prepare kw lon1_dst lat1_dst n1 x1 y1 n2 x2 y2 margin img_size = Inr p"
  shows "length (p_x1_dst p) = length (flatten lon1_dst)"
    and "length (p_y1_dst p) = length (flatten lon1_dst)"
    and "length (p_x2fg p) = length (flatten lon1_dst)"
    and "length (p_y2fg p) = length (flatten lon1_dst)"
    and "length (p_border p) = length (flatten lon1_dst)"
    and "p_gpi p = map (padded_windows_inside (real_of_int img_size / 2) (real_of_int margin)
                          (nshape n1) (nshape n2)) (query_points p)"
proof -
  let ?pts = "map (geo2pix n1) (zip (flatten lon1_dst) (flatten lat1_dst))"
  from assms have ll: "length (flatten lon1_dst) = length (flatten lat1_dst)"
    by (auto simp: prepare_def split: if_splits)
  from assms ll obtain x2fg y2fg border where
    pfg: "prepare_first_guess kw (map fst ?pts) (map snd ?pts) n1 x1 y1 n2 x2 y2 img_size
            = Inr (x2fg, y2fg, border)"
    and p: "p = \<lparr>p_x1_dst = map fst ?pts, p_y1_dst = map snd ?pts, p_x2fg = x2fg, p_y2fg = y2fg,
                 p_border = border,
                 p_gpi = valid_mask img_size margin n1 n2 x2fg y2fg border (map fst ?pts) (map snd ?pts)\<rparr>"
    by (auto simp: prepare_def Let_def split: sum.splits)
  from prepare_first_guess_lengths[OF pfg] ll
  show "length (p_x1_dst p) = length (flatten lon1_dst)"
    and "length (p_y1_dst p) = length (flatten lon1_dst)"
    and "length (p_x2fg p) = length (flatten lon1_dst)"
    and "length (p_y2fg p) = length (flatten lon1_dst)"
    and "length (p_border p) = length (flatten lon1_dst)"
    by (simp_all add: p)
  have "(\<lambda>(a, b, c, d, e). valid_point (real_of_int img_size / 2) (real_of_int margin)
            (nshape n1) (nshape n2) a b c d e)
        = padded_windows_inside (real_of_int img_size / 2) (real_of_int margin) (nshape n1) (nshape n2)"
    by (auto simp: fun_eq_iff valid_point_iff)
  then show "p_gpi p = map (padded_windows_inside (real_of_int img_size / 2) (real_of_int margin)
                          (nshape n1) (nshape n2)) (query_points p)"
    by (simp add: p valid_mask_def query_points_def)
qed

lemma dispatched_shared_of:
  assumes "prepare kw lon1_dst lat1_dst n1 x1 y1 n2 x2 y2 margin img_size = Inr p"
  shows "dispatched (shared_of p n1 n2 img_size alpha0) =
           filter (padded_windows_inside (real_of_int img_size / 2) (real_of_int margin)
                     (nshape n1) (nshape n2)) (query_points p)"
proof -
  note pr = prepare_Inr[OF assms]
  let ?P = "padded_windows_inside (real_of_int img_size / 2) (real_of_int margin) (nshape n1) (nshape n2)"
  let ?qp = "query_points p"
  note comp = zip5_components[OF pr(3) pr(4) pr(5) pr(1) pr(2), folded query_points_def]
  have "boolean_index (p_gpi p) (p_x2fg p) = map (\<lambda>(a, b, c, d, e). a) (filter ?P ?qp)"
    by (subst comp(1), subst pr(6)) (rule boolean_index_map)
  moreover have "boolean_index (p_gpi p) (p_y2fg p) = map (\<lambda>(a, b, c, d, e). b) (filter ?P ?qp)"
    by (subst comp(2), subst pr(6)) (rule boolean_index_map)
  moreover have "boolean_index (p_gpi p) (p_border p) = map (\<lambda>(a, b, c, d, e). c) (filter ?P ?qp)"
    by (subst comp(3), subst pr(6)) (rule boolean_index_map)
  moreover have "boolean_index (p_gpi p) (p_x1_dst p) = map (\<lambda>(a, b, c, d, e). d) (filter ?P ?qp)"
    by (subst comp(4), subst pr(6)) (rule boolean_index_map)
  moreover have "boolean_index (p_gpi p) (p_y1_dst p) = map (\<lambda>(a, b, c, d, e). e) (filter ?P ?qp)"
    by (subst comp(5), subst pr(6)) (rule boolean_index_map)
  ultimately show ?thesis
    by (simp add: dispatched_def shared_of_def zip5_of_maps)
qed

lemma use_mcc_mp_dispatched:
  assumes "j < length (dispatched sh)"
  shows "use_mcc_mp kw sh j =
           (case dispatched sh ! j of (x2fg, y2fg, border, x1p, y1p) \<Rightarrow>
              use_mcc kw x1p y1p x2fg y2fg border (sh_img1 sh) (sh_img2 sh) (sh_img_size sh) (sh_alpha0 sh))"
  using assms by (simp add: use_mcc_mp_def dispatched_def)

lemma reshape_shape: "shape0 (reshape shp xs) = fst shp" "shape1 (reshape shp xs) = snd shp"
  by (simp_all add: reshape_def shape0_def shape1_def)

lemma flat_index_less:
  fixes i j :: nat
  assumes "i < r" "j < c"
  shows "i * c + j < r * c"
proof -
  have "i * c + j < i * c + c" using assms(2) by simp
  also have "\<dots> = Suc i * c" by simp
  also have "\<dots> \<le> r * c" using assms(1) by (intro mult_le_mono1) simp
  finally show ?thesis .
qed

lemma reshape_nth:
  assumes "i < fst shp" "j < snd shp" "length xs = fst shp * snd shp"
  shows "rows (reshape shp xs) ! i ! j = xs ! (i * snd shp + j)"
proof -
  have "i * snd shp + j < length xs"
    using flat_index_less[OF assms(1,2)] assms(3) by simp
  then show ?thesis using assms(1,2) by (simp add: reshape_def)
qed

lemma length_scatter: "length (scatter g vs d) = length g"
  by (induction g vs d rule: scatter.induct) simp_all

lemma scatter_False: "k < length g \<Longrightarrow> \<not> g ! k \<Longrightarrow> scatter g vs d ! k = d"
proof (induction g vs d arbitrary: k rule: scatter.induct)
  case (1 vs d)
  then show ?case by simp
next
  case (2 g v vs d)
  then show ?case by (cases k) simp_all
next
  case (3 g d)
  then show ?case by (cases k) simp_all
next
  case (4 g vs d)
  then show ?case by (cases k) simp_all
qed

lemma fill_gpi_masked:
  assumes "fill_gpi shp gpi data = Inr G"
  shows "masked_cells_nan shp gpi G"
proof -
  from assms have len: "length gpi = fst shp * snd shp"
    by (auto simp: fill_gpi_def split: if_splits)
  from assms obtain vs where G: "G = reshape shp (scatter gpi vs NaN)"
    by (auto simp: fill_gpi_def split: if_splits)
  have "rows G ! i ! j = NaN" if "i < fst shp" "j < snd shp" "\<not> gpi ! (i * snd shp + j)" for i j
  proof -
    have k: "i * snd shp + j < length gpi" using flat_index_less[OF that(1,2)] len by simp
    have "rows G ! i ! j = scatter gpi vs NaN ! (i * snd shp + j)"
      unfolding G using that(1,2) len by (intro reshape_nth) (simp_all add: length_scatter)
    also have "\<dots> = NaN" using k that(3) by (rule scatter_False)
    finally show ?thesis .
  qed
  then show ?thesis by (simp add: masked_cells_nan_def G reshape_shape)
qed

lemma nan_grid_cells:
  "shape0 (nan_grid shp) = fst shp" "shape1 (nan_grid shp) = snd shp"
  "i < fst shp \<Longrightarrow> j < snd shp \<Longrightarrow> rows (nan_grid shp) ! i ! j = NaN"
proof -
  show "shape0 (nan_grid shp) = fst shp" "shape1 (nan_grid shp) = snd shp"
    by (simp_all add: nan_grid_def reshape_shape)
  assume ij: "i < fst shp" "j < snd shp"
  have "rows (nan_grid shp) ! i ! j = replicate (fst shp * snd shp) NaN ! (i * snd shp + j)"
    unfolding nan_grid_def using ij by (intro reshape_nth) simp_all
  also have "\<dots> = NaN" using flat_index_less[OF ij] by simp
  finally show "rows (nan_grid shp) ! i ! j = NaN" .
qed

lemma nan_grid_masked: "masked_cells_nan shp gpi (nan_grid shp)"
  by (simp add: masked_cells_nan_def nan_grid_cells)

lemma assemble_masked:
  assumes "assemble kw shp gpi n1 n2 x1_dst y1_dst results = Inr (u, v, a, r, h, lon2, lat2)"
  shows "masked_cells_nan shp gpi u \<and> masked_cells_nan shp gpi v \<and> masked_cells_nan shp gpi a \<and>
         masked_cells_nan shp gpi r \<and> masked_cells_nan shp gpi h \<and>
         masked_cells_nan shp gpi lon2 \<and> masked_cells_nan shp gpi lat2"
proof (cases "length results = 0")
  case True
  with assms show ?thesis by (auto simp: assemble_def nan_grid_masked)
next
  case False
  with assms show ?thesis
    by (auto simp: assemble_def Let_def split: prod.splits sum.splits intro: fill_gpi_masked)
qed

lemma run_tasks_Inr:
  assumes "run_tasks kw sh threads n = Inr results"
  shows "length results = n" and "\<forall>k<n. use_mcc_mp kw sh k = Inr (results ! k)"
proof -
  from assms have seq: "sequence (map (use_mcc_mp kw sh) [0..<n]) = Inr results"
    by (auto simp: run_tasks_def split: if_splits)
  from sequence_map_Inr[OF seq] show "length results = n"
    and "\<forall>k<n. use_mcc_mp kw sh k = Inr (results ! k)" by auto
qed

lemma grid_kw_fields:
  "min_fg_pts grid_kw = 5" "max_border grid_kw = 1" "angles grid_kw = [0]"
  "mcc_norm grid_kw = False" "template_matcher grid_kw = corner_matcher"
  "nd_rotate grid_kw = quarter_rotate" "rot_order grid_kw = 1" "domain_geo2pix grid_kw = (\<lambda>p. p)"
  "np_radians grid_kw = radians" "np_cos grid_kw = cos" "np_sin grid_kw = sin"
  "float64 grid_kw = (\<lambda>v. v)"
  by (simp_all add: grid_kw_def demo_kw_def)

lemma demo_n_fields:
  "nshape demo_n1 = (12, 12)" "nshape demo_n2 = (12, 12)"
  "band demo_n1 = const_image 12 12" "band demo_n2 = const_image 12 12"
  "geo2pix demo_n1 = (\<lambda>p. p)" "pix2geo demo_n1 = (\<lambda>p. p)"
  "geo2pix demo_n2 = (\<lambda>p. (fl_add (fst p) (Fin 1), snd p))"
  "pix2geo demo_n2 = (\<lambda>p. (fl_sub (fst p) (Fin 1), snd p))"
  by (simp_all add: demo_n1_def demo_n2_def)

lemma half_diagonal_simp: "sqrt (9 / 2) < 6"
  by (rule real_less_lsqrt) simp_all

lemma pfg_grid:
  "prepare_first_guess grid_kw [Fin 6, Fin 1] [Fin 6, Fin 1] demo_n1 [1, 3] [0, 0] demo_n2 [2, 4] [0, 0] 3
     = Inr ([Fin 7, Fin 2], [Fin 6, Fin 1], [Fin 2, Fin 2])"
  by (simp add: prepare_first_guess_def grid_kw_fields demo_n_fields)

lemma prep_grid:
  "prepare grid_kw grid_lonlat grid_lonlat demo_n1 [1, 3] [0, 0] demo_n2 [2, 4] [0, 0] 0 3
     = Inr \<lparr>p_x1_dst = [Fin 6, Fin 1], p_y1_dst = [Fin 6, Fin 1], p_x2fg = [Fin 7, Fin 2],
            p_y2fg = [Fin 6, Fin 1], p_border = [Fin 2, Fin 2], p_gpi = [True, False]\<rparr>"
  by (simp add: prepare_def grid_lonlat_def flatten_def demo_n_fields pfg_grid valid_mask_def
      valid_point_iff half_diagonal_simp Let_def)

lemma rot_grid: "get_initial_rotation demo_n1 demo_n2 = Inr (Fin 0)"
  by (simp add: get_initial_rotation_def demo_n1_def demo_n2_def np_arctan2_def)

lemma grt_grid:
  "get_rotated_template grid_kw (const_image 12 12) (Fin 6) (Fin 6) 3 (Fin 0) = Inr (const_image 3 3)"
  apply (simp add: get_rotated_template_def radians_def Let_def grid_kw_fields quarter_rotate_def
      slice2_const_image)
  apply (simp add: trunc_def)
  apply (simp add: slice_bound_def)
  done

lemma match_grid:
  "corner_matcher (const_image 7 7) (const_image 3 3) = Inr flat_surface"
  apply (simp add: corner_matcher_def shape_const_image tabulate2_def upt_more(2))
  apply (simp add: const_image_def flat_surface_def)
  done

lemma surface_max: "np_max flat_surface = Inr (Fin (1 / 100))" "np_argmax flat_surface = Inr (0, 0)"
  by (simp_all add: np_max_def np_argmax_def flat_surface_def Let_def)

lemma finish_grid:
  "rm_finish grid_kw (const_image 7 7)
      (Some \<lparr>best_r = 1 / 100, best_a = 0, best_result = flat_surface,
              best_template = const_image 3 3, best_ij = (0, 0)\<rparr>) (Some (const_image 3 3))
    = Inr (Tuple7 (Fin (- 2)) (Fin (- 2)) (Fin 0) (Fin (1 / 100)) (Fin (sqrt (1 / 5000)))
            flat_surface (const_image 3 3))"
  apply (simp add: rm_finish_def get_hessian_def grid_kw_def demo_kw_def Let_def shape_const_image)
  apply (simp add: hypot2_def at2_def flat_surface_def shape_const_image)
  done

lemma rm_grid:
  "rotate_and_match grid_kw (const_image 12 12) (Fin 6) (Fin 6) 3 (const_image 7 7) (Fin 0) =
     Inr (Tuple7 (Fin (- 2)) (Fin (- 2)) (Fin 0) (Fin (1 / 100)) (Fin (sqrt (1 / 5000)))
            flat_surface (const_image 3 3))"
  by (simp add: rotate_and_match_def grid_kw_fields grt_grid shape_const_image match_grid
      surface_max finish_grid)

lemma use_mcc_grid:
  "use_mcc grid_kw (Fin 6) (Fin 6) (Fin 7) (Fin 6) (Fin 2) (const_image 12 12) (const_image 12 12) 3 (Fin 0)
     = Inr (Fin 5, Fin 4, Fin 0, Fin (1 / 100), Fin (sqrt (1 / 5000)))"
  apply (simp add: use_mcc_def py_round_def trunc_def Let_def slice2_const_image)
  apply (simp add: slice_bound_def rm_grid)
  done

lemma shared_grid:
  "shared_of grid_prepared demo_n1 demo_n2 3 (Fin 0) =
     \<lparr>sh_x1 = [Fin 6], sh_y1 = [Fin 6], sh_x2fg = [Fin 7], sh_y2fg = [Fin 6], sh_border = [Fin 2],
      sh_img1 = const_image 12 12, sh_img2 = const_image 12 12, sh_img_size = 3, sh_alpha0 = Fin 0\<rparr>"
  by (simp add: shared_of_def grid_prepared_def boolean_index_def demo_n_fields)

lemma run_grid:
  "run_tasks grid_kw (shared_of grid_prepared demo_n1 demo_n2 3 (Fin 0)) 0 (count_true (p_gpi grid_prepared))
     = Inr [(Fin 5, Fin 4, Fin 0, Fin (1 / 100), Fin (sqrt (1 / 5000)))]"
proof -
  have c: "count_true (p_gpi grid_prepared) = 1"
    by (simp add: count_true_def grid_prepared_def)
  show ?thesis
    unfolding shared_grid c by (simp add: run_tasks_def use_mcc_mp_def use_mcc_grid)
qed

lemma pm_grid:
  "pattern_matching grid_kw grid_lonlat grid_lonlat demo_n1 [1, 3] [0, 0] demo_n2 [2, 4] [0, 0] 0 3 0
     = Inr (Array2 2 [[Fin (- 2), NaN]], Array2 2 [[Fin 2, NaN]], Array2 2 [[Fin 0, NaN]],
            Array2 2 [[Fin (1 / 100), NaN]], Array2 2 [[Fin (sqrt (1 / 5000)), NaN]],
            Array2 2 [[Fin 4, NaN]], Array2 2 [[Fin 4, NaN]])"
  apply (simp add: pattern_matching_def prep_grid[folded grid_prepared_def] rot_grid run_grid Let_def)
  apply (simp add: assemble_def grid_prepared_def get_drift_vectors_def boolean_index_def
      demo_n_fields grid_kw_fields Let_def)
  apply (simp add: fill_gpi_def grid_lonlat_def shape0_def shape1_def count_true_def reshape_def upt_more)
  done

lemma prep_edge:
  "prepare deaf_kw edge_lonlat edge_lonlat demo_n1 [1, 3] [0, 0] demo_n2 [2, 4] [0, 0] 0 3
     = Inr edge_prepared"
proof -
  have f: "min_fg_pts deaf_kw = 5" "max_border deaf_kw = 1"
    by (simp_all add: deaf_kw_def grid_kw_fields)
  have "prepare_first_guess deaf_kw [Fin 1, Fin 11] [Fin 1, Fin 11] demo_n1 [1, 3] [0, 0]
          demo_n2 [2, 4] [0, 0] 3 = Inr ([Fin 2, Fin 12], [Fin 1, Fin 11], [Fin 2, Fin 2])"
    by (simp add: prepare_first_guess_def f demo_n_fields)
  then show ?thesis
    by (simp add: prepare_def edge_lonlat_def flatten_def demo_n_fields valid_mask_def
        valid_point_iff Let_def edge_prepared_def)
qed

text \<open>
  Claim C8. The mask is true exactly at the query points whose search window on image 2,
  padded by border, half template size and margin, and whose template window on image 1,
  padded by half the template diagonal and margin, lie strictly inside their images. The
  vectors handed to the matcher hold these points and no others, in their order, and task
  \<open>j\<close> matches the \<open>j\<close>-th of them.
\<close>

theorem mask_excludes_points_with_windows_outside:
  assumes "prepare kw lon1_dst lat1_dst n1 x1 y1 n2 x2 y2 margin img_size = Inr p"
  shows "length (query_points p) = length (flatten lon1_dst) \<and>
         length (p_gpi p) = length (query_points p) \<and>
         (\<forall>i<length (query_points p).
            p_gpi p ! i \<longleftrightarrow>
              padded_windows_inside (real_of_int img_size / 2) (real_of_int margin)
                 (nshape n1) (nshape n2) (query_points p ! i)) \<and>
         dispatched (shared_of p n1 n2 img_size alpha0) =
           filter (padded_windows_inside (real_of_int img_size / 2) (real_of_int margin)
                     (nshape n1) (nshape n2)) (query_points p) \<and>
         count_true (p_gpi p) = length (dispatched (shared_of p n1 n2 img_size alpha0)) \<and>
         (\<forall>j<count_true (p_gpi p).
            use_mcc_mp kw (shared_of p n1 n2 img_size alpha0) j =
              (case dispatched (shared_of p n1 n2 img_size alpha0) ! j of
                 (x2fg, y2fg, border, x1p, y1p) \<Rightarrow>
                   use_mcc kw x1p y1p x2fg y2fg border (band n1) (band n2) img_size alpha0))"
proof -
  note pr = prepare_Inr[OF assms]
  have l: "length (query_points p) = length (flatten lon1_dst)"
    using pr(1-5) by (simp add: query_points_def)
  have g: "length (p_gpi p) = length (query_points p)" by (simp add: pr(6))
  have m: "\<forall>i<length (query_points p).
            p_gpi p ! i \<longleftrightarrow>
              padded_windows_inside (real_of_int img_size / 2) (real_of_int margin)
                 (nshape n1) (nshape n2) (query_points p ! i)"
    by (simp add: pr(6))
  note d = dispatched_shared_of[OF assms, of alpha0]
  have c: "count_true (p_gpi p) = length (dispatched (shared_of p n1 n2 img_size alpha0))"
    by (simp add: d) (simp add: pr(6) count_true_map)
  have u: "\<forall>j<count_true (p_gpi p).
            use_mcc_mp kw (shared_of p n1 n2 img_size alpha0) j =
              (case dispatched (shared_of p n1 n2 img_size alpha0) ! j of
                 (x2fg, y2fg, border, x1p, y1p) \<Rightarrow>
                   use_mcc kw x1p y1p x2fg y2fg border (band n1) (band n2) img_size alpha0)"
    using use_mcc_mp_dispatched[of _ "shared_of p n1 n2 img_size alpha0" kw] c
    by (simp add: shared_of_def)
  from l g m d c u show ?thesis by blast
qed

theorem mask_excludes_points_with_windows_outside_witness:
  "prepare grid_kw grid_lonlat grid_lonlat demo_n1 [1, 3] [0, 0] demo_n2 [2, 4] [0, 0] 0 3
     = Inr grid_prepared \<and>
   query_points grid_prepared
     = [(Fin 7, Fin 6, Fin 2, Fin 6, Fin 6), (Fin 2, Fin 1, Fin 2, Fin 1, Fin 1)] \<and>
   padded_windows_inside (real_of_int 3 / 2) (real_of_int 0) (nshape demo_n1) (nshape demo_n2)
     (Fin 7, Fin 6, Fin 2, Fin 6, Fin 6) \<and>
   \<not> padded_windows_inside (real_of_int 3 / 2) (real_of_int 0) (nshape demo_n1) (nshape demo_n2)
     (Fin 2, Fin 1, Fin 2, Fin 1, Fin 1) \<and>
   dispatched (shared_of grid_prepared demo_n1 demo_n2 3 (Fin 0)) = [(Fin 7, Fin 6, Fin 2, Fin 6, Fin 6)] \<and>
   count_true (p_gpi grid_prepared) = 1"
proof -
  note prep = prep_grid[folded grid_prepared_def]
  note inst = mask_excludes_points_with_windows_outside[OF prep, of "Fin 0"]
  have qp: "query_points grid_prepared
     = [(Fin 7, Fin 6, Fin 2, Fin 6, Fin 6), (Fin 2, Fin 1, Fin 2, Fin 1, Fin 1)]"
    by (simp add: query_points_def grid_prepared_def)
  have gpi: "p_gpi grid_prepared = [True, False]" by (simp add: grid_prepared_def)
  from inst have m: "\<forall>i<length (query_points grid_prepared).
            p_gpi grid_prepared ! i \<longleftrightarrow>
              padded_windows_inside (real_of_int 3 / 2) (real_of_int 0)
                 (nshape demo_n1) (nshape demo_n2) (query_points grid_prepared ! i)"
    by blast
  from m[rule_format, of 0] qp gpi
  have in0: "padded_windows_inside (real_of_int 3 / 2) (real_of_int 0) (nshape demo_n1) (nshape demo_n2)
     (Fin 7, Fin 6, Fin 2, Fin 6, Fin 6)" by simp
  from m[rule_format, of 1] qp gpi
  have out1: "\<not> padded_windows_inside (real_of_int 3 / 2) (real_of_int 0) (nshape demo_n1) (nshape demo_n2)
     (Fin 2, Fin 1, Fin 2, Fin 1, Fin 1)" by simp
  from inst have "dispatched (shared_of grid_prepared demo_n1 demo_n2 3 (Fin 0)) =
           filter (padded_windows_inside (real_of_int 3 / 2) (real_of_int 0)
                     (nshape demo_n1) (nshape demo_n2)) (query_points grid_prepared)"
    by blast
  with qp in0 out1
  have d: "dispatched (shared_of grid_prepared demo_n1 demo_n2 3 (Fin 0)) = [(Fin 7, Fin 6, Fin 2, Fin 6, Fin 6)]"
    by simp
  from inst d have c: "count_true (p_gpi grid_prepared) = 1" by simp
  from prep qp in0 out1 d c show ?thesis by blast
qed

text \<open>
  The grids of a call that returns: each of the seven has the shape of the grid of query
  longitudes, and every cell that the mask excludes is NaN in all seven. Every point that
  was handed to the matcher has then been matched; a call in which the matching of a
  point fails is not among these, and is taken up in the last section.
\<close>

lemma pattern_matching_grids:
  assumes ret: "pattern_matching kw lon1_dst lat1_dst n1 x1 y1 n2 x2 y2 margin img_size threads
                  = Inr (u, v, a, r, h, lon2, lat2)"
    and prep: "prepare kw lon1_dst lat1_dst n1 x1 y1 n2 x2 y2 margin img_size = Inr p"
  shows "(\<forall>G \<in> {u, v, a, r, h, lon2, lat2}.
            shape0 G = shape0 lon1_dst \<and> shape1 G = shape1 lon1_dst \<and>
            (\<forall>i < shape0 lon1_dst. \<forall>j < shape1 lon1_dst.
                \<not> p_gpi p ! (i * shape1 lon1_dst + j) \<longrightarrow> rows G ! i ! j = NaN)) \<and>
         (\<exists>alpha0. get_initial_rotation n1 n2 = Inr alpha0 \<and>
            (\<forall>k<count_true (p_gpi p). \<exists>res.
                use_mcc_mp kw (shared_of p n1 n2 img_size alpha0) k = Inr res))"
proof -
  let ?shp = "(shape0 lon1_dst, shape1 lon1_dst)"
  from ret prep obtain alpha0 results where
    rot: "get_initial_rotation n1 n2 = Inr alpha0"
    and run: "run_tasks kw (shared_of p n1 n2 img_size alpha0) threads (count_true (p_gpi p)) = Inr results"
    and asm: "assemble kw ?shp (p_gpi p) n1 n2 (p_x1_dst p) (p_y1_dst p) results
                = Inr (u, v, a, r, h, lon2, lat2)"
    by (auto simp: pattern_matching_def Let_def split: sum.splits)
  from assemble_masked[OF asm]
  have "\<forall>G \<in> {u, v, a, r, h, lon2, lat2}. masked_cells_nan ?shp (p_gpi p) G" by simp
  then have grids: "\<forall>G \<in> {u, v, a, r, h, lon2, lat2}.
            shape0 G = shape0 lon1_dst \<and> shape1 G = shape1 lon1_dst \<and>
            (\<forall>i < shape0 lon1_dst. \<forall>j < shape1 lon1_dst.
                \<not> p_gpi p ! (i * shape1 lon1_dst + j) \<longrightarrow> rows G ! i ! j = NaN)"
    unfolding masked_cells_nan_def by simp
  from run_tasks_Inr(2)[OF run] rot
  have "\<exists>alpha0. get_initial_rotation n1 n2 = Inr alpha0 \<and>
            (\<forall>k<count_true (p_gpi p). \<exists>res.
                use_mcc_mp kw (shared_of p n1 n2 img_size alpha0) k = Inr res)"
    by blast
  with grids show ?thesis by blast
qed

lemma pattern_matching_grids_demo:
  "pattern_matching grid_kw grid_lonlat grid_lonlat demo_n1 [1, 3] [0, 0] demo_n2 [2, 4] [0, 0] 0 3 0
     = Inr (Array2 2 [[Fin (- 2), NaN]], Array2 2 [[Fin 2, NaN]], Array2 2 [[Fin 0, NaN]],
            Array2 2 [[Fin (1 / 100), NaN]], Array2 2 [[Fin (sqrt (1 / 5000)), NaN]],
            Array2 2 [[Fin 4, NaN]], Array2 2 [[Fin 4, NaN]]) \<and>
   p_gpi grid_prepared = [True, False] \<and>
   shape0 (Array2 2 [[Fin (- 2), NaN]]) = shape0 grid_lonlat \<and>
   shape1 (Array2 2 [[Fin (- 2), NaN]]) = shape1 grid_lonlat \<and>
   rows (Array2 2 [[Fin (- 2), NaN]]) ! 0 ! 1 = NaN \<and>
   shape0 (Array2 2 [[Fin (sqrt (1 / 5000)), NaN]]) = shape0 grid_lonlat \<and>
   shape1 (Array2 2 [[Fin (sqrt (1 / 5000)), NaN]]) = shape1 grid_lonlat \<and>
   rows (Array2 2 [[Fin (sqrt (1 / 5000)), NaN]]) ! 0 ! 1 = NaN"
proof -
  note prep = prep_grid[folded grid_prepared_def]
  note inst = pattern_matching_grids[OF pm_grid prep, THEN conjunct1]
  have gpi: "p_gpi grid_prepared = [True, False]" by (simp add: grid_prepared_def)
  have sh: "shape0 grid_lonlat = 1" "shape1 grid_lonlat = 2"
    by (simp_all add: grid_lonlat_def shape0_def shape1_def)
  from inst[rule_format, of "Array2 2 [[Fin (- 2), NaN]]"]
  have u: "shape0 (Array2 2 [[Fin (- 2), NaN]]) = shape0 grid_lonlat \<and>
           shape1 (Array2 2 [[Fin (- 2), NaN]]) = shape1 grid_lonlat \<and>
           (\<forall>i < shape0 grid_lonlat. \<forall>j < shape1 grid_lonlat.
                \<not> p_gpi grid_prepared ! (i * shape1 grid_lonlat + j)
                  \<longrightarrow> rows (Array2 2 [[Fin (- 2), NaN]]) ! i ! j = NaN)"
    by simp
  from inst[rule_format, of "Array2 2 [[Fin (sqrt (1 / 5000)), NaN]]"]
  have h: "shape0 (Array2 2 [[Fin (sqrt (1 / 5000)), NaN]]) = shape0 grid_lonlat \<and>
           shape1 (Array2 2 [[Fin (sqrt (1 / 5000)), NaN]]) = shape1 grid_lonlat \<and>
           (\<forall>i < shape0 grid_lonlat. \<forall>j < shape1 grid_lonlat.
                \<not> p_gpi grid_prepared ! (i * shape1 grid_lonlat + j)
                  \<longrightarrow> rows (Array2 2 [[Fin (sqrt (1 / 5000)), NaN]]) ! i ! j = NaN)"
    by simp
  from u have u1: "rows (Array2 2 [[Fin (- 2), NaN]]) ! 0 ! 1 = NaN"
    by (simp add: sh gpi)
  from h have h1: "rows (Array2 2 [[Fin (sqrt (1 / 5000)), NaN]]) ! 0 ! 1 = NaN"
    by (simp add: sh gpi)
  from pm_grid gpi u h u1 h1 show ?thesis by blast
qed

text \<open>
  Claim C10. If the mask excludes every query point, \<open>pattern_matching\<close> returns seven
  grids of the query shape filled with NaN, sequentially or with a pool of workers,
  whatever the matcher and the drift-vector conversion would do: neither is called.
\<close>

theorem pattern_matching_no_valid_point:
  assumes prep: "prepare kw lon1_dst lat1_dst n1 x1 y1 n2 x2 y2 margin img_size = Inr p"
    and none: "\<forall>i<length (p_gpi p). \<not> p_gpi p ! i"
    and rot: "get_initial_rotation n1 n2 = Inr alpha0"
    and thr: "0 \<le> threads"
  shows "pattern_matching kw lon1_dst lat1_dst n1 x1 y1 n2 x2 y2 margin img_size threads
           = Inr (nan_grid (shape0 lon1_dst, shape1 lon1_dst), nan_grid (shape0 lon1_dst, shape1 lon1_dst),
                  nan_grid (shape0 lon1_dst, shape1 lon1_dst), nan_grid (shape0 lon1_dst, shape1 lon1_dst),
                  nan_grid (shape0 lon1_dst, shape1 lon1_dst), nan_grid (shape0 lon1_dst, shape1 lon1_dst),
                  nan_grid (shape0 lon1_dst, shape1 lon1_dst))
         \<and> shape0 (nan_grid (shape0 lon1_dst, shape1 lon1_dst)) = shape0 lon1_dst
         \<and> shape1 (nan_grid (shape0 lon1_dst, shape1 lon1_dst)) = shape1 lon1_dst
         \<and> (\<forall>i < shape0 lon1_dst. \<forall>j < shape1 lon1_dst.
               rows (nan_grid (shape0 lon1_dst, shape1 lon1_dst)) ! i ! j = NaN)"
proof -
  have "filter id (p_gpi p) = []"
    using none by (auto simp: filter_empty_conv in_set_conv_nth)
  then have c: "count_true (p_gpi p) = 0" by (simp add: count_true_def)
  have run: "run_tasks kw sh threads 0 = Inr []" for sh
    using thr by (simp add: run_tasks_def)
  show ?thesis
    by (simp add: pattern_matching_def prep rot c run assemble_def nan_grid_cells Let_def)
qed

theorem pattern_matching_no_valid_point_witness:
  "prepare deaf_kw edge_lonlat edge_lonlat demo_n1 [1, 3] [0, 0] demo_n2 [2, 4] [0, 0] 0 3
     = Inr edge_prepared \<and>
   p_gpi edge_prepared = [False, False] \<and>
   pattern_matching deaf_kw edge_lonlat edge_lonlat demo_n1 [1, 3] [0, 0] demo_n2 [2, 4] [0, 0] 0 3 5
           = Inr (nan_grid (shape0 edge_lonlat, shape1 edge_lonlat), nan_grid (shape0 edge_lonlat, shape1 edge_lonlat),
                  nan_grid (shape0 edge_lonlat, shape1 edge_lonlat), nan_grid (shape0 edge_lonlat, shape1 edge_lonlat),
                  nan_grid (shape0 edge_lonlat, shape1 edge_lonlat), nan_grid (shape0 edge_lonlat, shape1 edge_lonlat),
                  nan_grid (shape0 edge_lonlat, shape1 edge_lonlat)) \<and>
   nan_grid (shape0 edge_lonlat, shape1 edge_lonlat) = Array2 2 [[NaN, NaN]]"
proof -
  have gpi: "p_gpi edge_prepared = [False, False]" by (simp add: edge_prepared_def)
  have none: "\<forall>i<length (p_gpi edge_prepared). \<not> p_gpi edge_prepared ! i"
    by (simp add: gpi less_Suc_eq numeral_2_eq_2)
  have thr: "(0::int) \<le> 5" by simp
  note inst = pattern_matching_no_valid_point[OF prep_edge none rot_grid thr]
  have g: "nan_grid (shape0 edge_lonlat, shape1 edge_lonlat) = Array2 2 [[NaN, NaN]]"
    by (simp add: nan_grid_def reshape_def edge_lonlat_def shape0_def shape1_def upt_more
        numeral_2_eq_2)
  from prep_edge gpi inst g show ?thesis by blast
qed

section \<open>Per-point failure\<close>

lemma wide_n_fields:
  "nshape wide_n1 = (40, 40)" "nshape wide_n2 = (40, 40)"
  "band wide_n1 = const_image 40 40" "band wide_n2 = const_image 40 40"
  "geo2pix wide_n1 = (\<lambda>p. p)" "pix2geo wide_n1 = (\<lambda>p. p)"
  "geo2pix wide_n2 = (\<lambda>p. (fl_add (fst p) (Fin 1), snd p))"
  "get_corners wide_n2 = get_corners demo_n2"
  by (simp_all add: wide_n1_def wide_n2_def demo_n1_def demo_n2_def)

lemma wide_diagonal: "sqrt (35 / 2 * (35 / 2) + 35 / 2 * (35 / 2)) < 25"
  by (rule real_less_lsqrt) simp_all

lemma pwi_wide:
  "padded_windows_inside (35 / 2) (- 15) (40, 40) (40, 40) (Fin 31, Fin 30, Fin 2, Fin 30, Fin 30)"
  using wide_diagonal by (simp add: Let_def)

lemma prep_wide:
  "prepare grid_kw wide_lonlat wide_lonlat wide_n1 [1, 3] [0, 0] wide_n2 [2, 4] [0, 0] (- 15) 35
     = Inr wide_prepared"
proof -
  have "prepare_first_guess grid_kw [Fin 30] [Fin 30] wide_n1 [1, 3] [0, 0]
          wide_n2 [2, 4] [0, 0] 35 = Inr ([Fin 31], [Fin 30], [Fin 2])"
    by (simp add: prepare_first_guess_def grid_kw_fields wide_n_fields)
  then show ?thesis
    using pwi_wide
    by (simp add: prepare_def wide_lonlat_def flatten_def wide_n_fields valid_mask_def
        valid_point_iff wide_prepared_def Let_def del: padded_windows_inside.simps)
qed

lemma rot_wide: "get_initial_rotation wide_n1 wide_n2 = Inr (Fin 0)"
  by (simp add: get_initial_rotation_def wide_n_fields demo_n2_def np_arctan2_def)

lemma pm_wide:
  "pattern_matching grid_kw wide_lonlat wide_lonlat wide_n1 [1, 3] [0, 0] wide_n2 [2, 4] [0, 0] (- 15) 35 0
     = Inl ValueError"
proof -
  have sh: "shared_of wide_prepared wide_n1 wide_n2 35 (Fin 0) =
     \<lparr>sh_x1 = [Fin 30], sh_y1 = [Fin 30], sh_x2fg = [Fin 31], sh_y2fg = [Fin 30], sh_border = [Fin 2],
      sh_img1 = const_image 40 40, sh_img2 = const_image 40 40, sh_img_size = 35, sh_alpha0 = Fin 0\<rparr>"
    by (simp add: shared_of_def wide_prepared_def boolean_index_def wide_n_fields)
  have c: "count_true (p_gpi wide_prepared) = 1"
    by (simp add: count_true_def wide_prepared_def)
  have u: "use_mcc grid_kw (Fin 30) (Fin 30) (Fin 31) (Fin 30) (Fin 2)
             (const_image 40 40) (const_image 40 40) 35 (Fin 0) = Inl ValueError"
    by (simp add: rm_high_border use_mcc_def Let_def)
  have "run_tasks grid_kw (shared_of wide_prepared wide_n1 wide_n2 35 (Fin 0)) 0
          (count_true (p_gpi wide_prepared)) = Inl ValueError"
    unfolding sh c by (simp add: run_tasks_def use_mcc_mp_def u)
  then show ?thesis
    by (simp add: pattern_matching_def prep_wide rot_wide)
qed

lemma prep_pair:
  "prepare grid_kw pair_lonlat pair_lonlat wide_n1 [1, 3] [0, 0] wide_n2 [2, 4] [0, 0] (- 15) 35
     = Inr pair_prepared"
proof -
  have "prepare_first_guess grid_kw [Fin 30, Fin 1] [Fin 30, Fin 1] wide_n1 [1, 3] [0, 0]
          wide_n2 [2, 4] [0, 0] 35 = Inr ([Fin 31, Fin 2], [Fin 30, Fin 1], [Fin 2, Fin 2])"
    by (simp add: prepare_first_guess_def grid_kw_fields wide_n_fields)
  moreover have "\<not> padded_windows_inside (35 / 2) (- 15) (40, 40) (40, 40)
                     (Fin 2, Fin 1, Fin 2, Fin 1, Fin 1)"
    by (simp add: Let_def)
  ultimately show ?thesis
    using pwi_wide
    by (simp add: prepare_def pair_lonlat_def flatten_def wide_n_fields valid_mask_def
        valid_point_iff pair_prepared_def Let_def del: padded_windows_inside.simps)
qed

lemma shared_pair:
  "shared_of pair_prepared wide_n1 wide_n2 35 (Fin 0) =
     \<lparr>sh_x1 = [Fin 30], sh_y1 = [Fin 30], sh_x2fg = [Fin 31], sh_y2fg = [Fin 30], sh_border = [Fin 2],
      sh_img1 = const_image 40 40, sh_img2 = const_image 40 40, sh_img_size = 35, sh_alpha0 = Fin 0\<rparr>"
  by (simp add: shared_of_def pair_prepared_def boolean_index_def wide_n_fields)

lemma task_pair:
  "use_mcc_mp grid_kw (shared_of pair_prepared wide_n1 wide_n2 35 (Fin 0)) 0 = Inl ValueError"
proof -
  have "use_mcc grid_kw (Fin 30) (Fin 30) (Fin 31) (Fin 30) (Fin 2)
             (const_image 40 40) (const_image 40 40) 35 (Fin 0) = Inl ValueError"
    by (simp add: rm_high_border use_mcc_def Let_def)
  then show ?thesis
    unfolding shared_pair by (simp add: use_mcc_mp_def)
qed

lemma pm_pair:
  "pattern_matching grid_kw pair_lonlat pair_lonlat wide_n1 [1, 3] [0, 0] wide_n2 [2, 4] [0, 0] (- 15) 35 0
     = Inl ValueError"
proof -
  have c: "count_true (p_gpi pair_prepared) = 1"
    by (simp add: count_true_def pair_prepared_def)
  have "run_tasks grid_kw (shared_of pair_prepared wide_n1 wide_n2 35 (Fin 0)) 0
          (count_true (p_gpi pair_prepared)) = Inl ValueError"
    unfolding c by (simp add: run_tasks_def task_pair)
  then show ?thesis
    by (simp add: pattern_matching_def prep_pair rot_wide)
qed

text \<open>
  Claim C1. A failure of the matching at one query point is meant to give the invalid
  sentinel in the result fields and never an error. The code does not do this: at a
  query point whose template comes out smaller than the template size,
  \<open>rotate_and_match\<close> returns six NaN and \<open>use_mcc\<close>, which unpacks seven values, raises
  ValueError, and so does \<open>pattern_matching\<close> for a grid that holds the point. Here the
  template of a point at (30, 30) of a 40 by 40 image is cut to 28 by 28 for a template
  size of 35.
\<close>

theorem matching_failure_raises:
  "rotate_and_match grid_kw (const_image 40 40) (Fin 30) (Fin 30) 35 (const_image 40 40) (Fin 0)
     = Inr (Tuple6 NaN NaN NaN NaN NaN NaN) \<and>
   use_mcc grid_kw (Fin 30) (Fin 30) (Fin 20) (Fin 20) (Fin 2)
           (const_image 40 40) (const_image 40 40) 35 (Fin 0) = Inl ValueError \<and>
   pattern_matching grid_kw wide_lonlat wide_lonlat wide_n1 [1, 3] [0, 0] wide_n2 [2, 4] [0, 0]
           (- 15) 35 0 = Inl ValueError"
  by (simp add: rm_high_border pm_wide use_mcc_def Let_def)

text \<open>
  Claim C6. The seven grids are to have the shape of the query grid, with NaN in every cell
  that the mask excluded or whose matching failed. The code does not do this for a cell
  whose matching failed. On a grid of two cells over 40 by 40 images, the cell at (30, 30)
  passes the mask and is the one point handed to the matcher, and the cell at (1, 1) is
  excluded by the mask. The matching of the first cell fails: its template is cut to 28 by
  28 for a template size of 35 and \<open>rotate_and_match\<close> returns six NaN. Its task raises
  ValueError on unpacking them and \<open>pattern_matching\<close> raises with it, so no grid is
  returned and neither cell is NaN in any. This is the defect of claim C1.
\<close>

theorem failed_match_leaves_no_grid:
  "prepare grid_kw pair_lonlat pair_lonlat wide_n1 [1, 3] [0, 0] wide_n2 [2, 4] [0, 0] (- 15) 35
     = Inr pair_prepared \<and>
   p_gpi pair_prepared = [True, False] \<and>
   dispatched (shared_of pair_prepared wide_n1 wide_n2 35 (Fin 0))
     = [(Fin 31, Fin 30, Fin 2, Fin 30, Fin 30)] \<and>
   rotate_and_match grid_kw (band wide_n1) (Fin 30) (Fin 30) 35
       (slice2 11 50 12 51 (band wide_n2)) (Fin 0)
     = Inr (Tuple6 NaN NaN NaN NaN NaN NaN) \<and>
   use_mcc_mp grid_kw (shared_of pair_prepared wide_n1 wide_n2 35 (Fin 0)) 0 = Inl ValueError \<and>
   pattern_matching grid_kw pair_lonlat pair_lonlat wide_n1 [1, 3] [0, 0] wide_n2 [2, 4] [0, 0]
           (- 15) 35 0 = Inl ValueError"
proof -
  have gpi: "p_gpi pair_prepared = [True, False]" by (simp add: pair_prepared_def)
  have d: "dispatched (shared_of pair_prepared wide_n1 wide_n2 35 (Fin 0))
             = [(Fin 31, Fin 30, Fin 2, Fin 30, Fin 30)]"
    unfolding shared_pair by (simp add: dispatched_def)
  have rm: "rotate_and_match grid_kw (band wide_n1) (Fin 30) (Fin 30) 35
              (slice2 11 50 12 51 (band wide_n2)) (Fin 0)
              = Inr (Tuple6 NaN NaN NaN NaN NaN NaN)"
    by (simp add: wide_n_fields rm_high_border)
  from prep_pair gpi d rm task_pair pm_pair show ?thesis by blast
qed

end
